theory Spec2Isabelle
  imports Main "HOL-Library.Word"
begin

section \<open>Go values held in \<open>interface{}\<close>\<close>

text \<open>
  A payload is a \<open>map[string]interface{}\<close>. The dynamic types the redaction code
  distinguishes are \<open>string\<close>, \<open>map[string]interface{}\<close> and \<open>[]interface{}\<close>; the nil
  interface is \<open>VNil\<close>, and a map or slice held in an interface may itself be nil
  (\<open>None\<close>). Every other dynamic type takes the "anything else" branch of the type
  switches: integers and booleans are given constructors, the rest is \<open>VOther\<close>.
  A map is kept as the list of its entries; Go maps have no duplicate keys and the loops
  over them treat every entry on its own, so the iteration order does not matter.
\<close>

datatype val =
    VNil
  | VString string
  | VInt int
  | VBool bool
  | VOther nat
  | VMap "(string \<times> val) list option"
  | VSlice "val list option"

type_synonym gomap = "(string \<times> val) list option"
type_synonym goslice = "val list option"

section \<open>Regular expressions of helpers.go\<close>

text \<open>
  The patterns of \<open>NewPIIDetector\<close> use literals (all of them under \<open>(?i)\<close>), the
  wildcard \<open>.\<close>, character classes, \<open>?\<close>, counted repetition of a class, alternation,
  and the anchors \<open>^\<close> and \<open>$\<close>. A string is its list of bytes. A class of the
  patterns holds ASCII characters only, written as a list of ranges.
\<close>

type_synonym cclass = "(char \<times> char) list"

datatype re =
    LitI string
  | Dot
  | Cls cclass
  | Many cclass nat "nat option"
  | Opt re
  | Seq re re
  | Alt re re
  | BeginText
  | EndText

definition in_class :: "cclass \<Rightarrow> char \<Rightarrow> bool" where
  "in_class cs c = list_ex (\<lambda>(lo, hi). of_char lo \<le> (of_char c :: nat) \<and> (of_char c :: nat) \<le> of_char hi) cs"

text \<open>\<open>\d\<close> and \<open>\s\<close> are ASCII classes in Go: \<open>[0-9]\<close> and \<open>[\t\n\f\r ]\<close>.\<close>

definition digit :: cclass where
  "digit = [(CHR ''0'', CHR ''9'')]"

definition space :: cclass where
  "space = [(CHR 0x09, CHR 0x0A), (CHR 0x0C, CHR 0x0D), (CHR '' '', CHR '' '')]"

definition one :: "char \<Rightarrow> cclass" where
  "one c = [(c, c)]"

text \<open>
  Under \<open>(?i)\<close> a letter of the pattern matches every rune of its case-folding orbit:
  the lower-case and the upper-case ASCII letter, and for \<open>k\<close> and \<open>s\<close> also the Kelvin
  sign U+212A and the long s U+017F, here as their UTF-8 bytes. A character of the
  pattern that is not a letter matches itself.
\<close>

definition is_lower :: "char \<Rightarrow> bool" where
  "is_lower c = (of_char (CHR ''a'') \<le> (of_char c :: nat) \<and> (of_char c :: nat) \<le> of_char (CHR ''z''))"

definition to_upper :: "char \<Rightarrow> char" where
  "to_upper c = (if is_lower c then char_of (of_char c - (32 :: nat)) else c)"

definition fold_orbit :: "char \<Rightarrow> string list" where
  "fold_orbit c =
     (if is_lower c then
        [[c], [to_upper c]] @
        (if c = CHR ''k'' then [[CHR 0xE2, CHR 0x84, CHR 0xAA]]
         else if c = CHR ''s'' then [[CHR 0xC5, CHR 0xBF]]
         else [])
      else [[c]])"

text \<open>
  The wildcard consumes one rune that is not a newline. \<open>rune_width\<close> is the number of
  bytes of the first rune of a non-empty string, as \<open>utf8.DecodeRuneInString\<close> gives
  it: an ill-formed sequence is the replacement rune of width 1.
\<close>

definition cont :: "char \<Rightarrow> bool" where
  "cont c = (0x80 \<le> (of_char c :: nat) \<and> (of_char c :: nat) \<le> 0xBF)"

definition between :: "nat \<Rightarrow> char \<Rightarrow> nat \<Rightarrow> bool" where
  "between lo c hi = (lo \<le> (of_char c :: nat) \<and> (of_char c :: nat) \<le> hi)"

fun rune_width :: "string \<Rightarrow> nat" where
  "rune_width (b0 # b1 # b2 # b3 # _) =
     (if between 0xC2 b0 0xDF \<and> cont b1 then 2
      else if b0 = CHR 0xE0 \<and> between 0xA0 b1 0xBF \<and> cont b2 then 3
      else if b0 = CHR 0xED \<and> between 0x80 b1 0x9F \<and> cont b2 then 3
      else if between 0xE1 b0 0xEF \<and> b0 \<noteq> CHR 0xED \<and> cont b1 \<and> cont b2 then 3
      else if b0 = CHR 0xF0 \<and> between 0x90 b1 0xBF \<and> cont b2 \<and> cont b3 then 4
      else if between 0xF1 b0 0xF3 \<and> cont b1 \<and> cont b2 \<and> cont b3 then 4
      else if b0 = CHR 0xF4 \<and> between 0x80 b1 0x8F \<and> cont b2 \<and> cont b3 then 4
      else 1)"
| "rune_width [b0, b1, b2] =
     (if between 0xC2 b0 0xDF \<and> cont b1 then 2
      else if b0 = CHR 0xE0 \<and> between 0xA0 b1 0xBF \<and> cont b2 then 3
      else if b0 = CHR 0xED \<and> between 0x80 b1 0x9F \<and> cont b2 then 3
      else if between 0xE1 b0 0xEF \<and> b0 \<noteq> CHR 0xED \<and> cont b1 \<and> cont b2 then 3
      else 1)"
| "rune_width [b0, b1] = (if between 0xC2 b0 0xDF \<and> cont b1 then 2 else 1)"
| "rune_width _ = 1"

text \<open>
  \<open>many cs n m s\<close>: the rests of \<open>s\<close> after a run of characters of the class \<open>cs\<close>,
  at least \<open>n\<close> and (when \<open>m\<close> is given) at most \<open>m\<close> of them.
\<close>

fun many :: "cclass \<Rightarrow> nat \<Rightarrow> nat option \<Rightarrow> string \<Rightarrow> string list" where
  "many cs n m [] = (if n = 0 then [[]] else [])"
| "many cs n m (c # s) =
     (if n = 0 then [c # s] else []) @
     (if in_class cs c \<and> m \<noteq> Some 0 then many cs (n - 1) (map_option (\<lambda>k. k - 1) m) s else [])"

fun lit_i :: "string \<Rightarrow> string \<Rightarrow> string list" where
  "lit_i [] s = [s]"
| "lit_i (c # cs) s =
     concat (map (\<lambda>w. if take (length w) s = w then lit_i cs (drop (length w) s) else [])
       (fold_orbit c))"

text \<open>
  \<open>rests n r s\<close>: the rests of \<open>s\<close> after each way \<open>r\<close> can match a prefix of \<open>s\<close>,
  where \<open>s\<close> is a suffix of a text of \<open>n\<close> bytes (\<open>^\<close> holds when nothing of the text has
  been left behind).
\<close>

fun rests :: "nat \<Rightarrow> re \<Rightarrow> string \<Rightarrow> string list" where
  "rests n (LitI w) s = lit_i w s"
| "rests n Dot s =
     (case s of [] \<Rightarrow> []
      | c # _ \<Rightarrow> if c = CHR 0x0A then [] else [drop (rune_width s) s])"
| "rests n (Cls cs) s =
     (case s of [] \<Rightarrow> [] | c # t \<Rightarrow> if in_class cs c then [t] else [])"
| "rests n (Many cs lo hi) s = many cs lo hi s"
| "rests n (Opt r) s = s # rests n r s"
| "rests n (Seq r1 r2) s = concat (map (rests n r2) (rests n r1 s))"
| "rests n (Alt r1 r2) s = rests n r1 s @ rests n r2 s"
| "rests n BeginText s = (if length s = n then [s] else [])"
| "rests n EndText s = (if s = [] then [s] else [])"

fun tails :: "string \<Rightarrow> string list" where
  "tails [] = [[]]"
| "tails (c # s) = (c # s) # tails s"

text \<open>\<open>Regexp.MatchString\<close>: some match starts somewhere in the text.\<close>

definition MatchString :: "re \<Rightarrow> string \<Rightarrow> bool" where
  "MatchString r s = list_ex (\<lambda>t. rests (length s) r t \<noteq> []) (tails s)"

fun seqs :: "re list \<Rightarrow> re" where
  "seqs [r] = r"
| "seqs (r # rs) = Seq r (seqs rs)"
| "seqs [] = LitI []"

fun alts :: "re list \<Rightarrow> re" where
  "alts [r] = r"
| "alts (r # rs) = Alt r (alts rs)"
| "alts [] = LitI []"

section \<open>PIIDetector (helpers.go)\<close>

record PIIDetector =
  piiFieldPatterns :: "re list"
  piiValuePatterns :: "re list"

definition alnum :: cclass where
  "alnum = [(CHR ''a'', CHR ''z''), (CHR ''A'', CHR ''Z''), (CHR ''0'', CHR ''9'')]"

definition sep :: cclass where
  "sep = one (CHR ''-'') @ one (CHR ''.'') @ space"

definition NewPIIDetector :: PIIDetector where
  "NewPIIDetector = \<lparr>
     piiFieldPatterns = [
       alts [LitI ''email'', LitI ''e-mail''],
       alts [LitI ''phone'', LitI ''telephone'', LitI ''mobile''],
       alts [LitI ''ssn'', seqs [LitI ''social'', Dot, LitI ''security'']],
       alts [seqs [LitI ''credit'', Dot, LitI ''card''], seqs [LitI ''card'', Dot, LitI ''number'']],
       alts [LitI ''password'', LitI ''passwd'', LitI ''pwd''],
       alts [LitI ''secret'', LitI ''token'', LitI ''key''],
       alts [LitI ''address'', LitI ''street'', LitI ''city'', LitI ''zip'', LitI ''postal''],
       alts [LitI ''name'', LitI ''firstname'', LitI ''lastname'', LitI ''fullname''],
       alts [LitI ''dob'', seqs [LitI ''date'', Dot, LitI ''of'', Dot, LitI ''birth''], LitI ''birthdate''],
       alts [seqs [LitI ''ip'', Dot, LitI ''address''], LitI ''ip_addr'']
     ],
     piiValuePatterns = [
       seqs [BeginText,
             Many (alnum @ one (CHR ''.'') @ one (CHR ''_'') @ one (CHR ''%'') @ one (CHR ''+'') @ one (CHR ''-'')) 1 None,
             Cls (one (CHR ''@'')),
             Many (alnum @ one (CHR ''.'') @ one (CHR ''-'')) 1 None,
             Cls (one (CHR ''.'')),
             Many [(CHR ''a'', CHR ''z''), (CHR ''A'', CHR ''Z'')] 2 None,
             EndText],
       seqs [BeginText, Opt (Cls (one (CHR ''+''))), Cls [(CHR ''1'', CHR ''9'')],
             Many digit 1 (Some 14), EndText],
       seqs [BeginText, Opt (Cls (one (CHR ''(''))), Many digit 3 (Some 3),
             Opt (Cls (one (CHR '')''))), Opt (Cls sep), Many digit 3 (Some 3),
             Opt (Cls sep), Many digit 4 (Some 4), EndText],
       seqs [BeginText, Many digit 4 (Some 4), Opt (Cls (space @ one (CHR ''-''))),
             Many digit 4 (Some 4), Opt (Cls (space @ one (CHR ''-''))),
             Many digit 4 (Some 4), Opt (Cls (space @ one (CHR ''-''))),
             Many digit 4 (Some 4), EndText],
       seqs [BeginText, Many digit 3 (Some 3), Opt (Cls (one (CHR ''-''))),
             Many digit 2 (Some 2), Opt (Cls (one (CHR ''-''))), Many digit 4 (Some 4), EndText]
     ] \<rparr>"

definition IsPIIField :: "PIIDetector \<Rightarrow> string \<Rightarrow> bool" where
  "IsPIIField d fieldName = list_ex (\<lambda>pattern. MatchString pattern fieldName) (piiFieldPatterns d)"

definition IsPIIValue :: "PIIDetector \<Rightarrow> val \<Rightarrow> bool" where
  "IsPIIValue d v =
     (case v of
        VString str \<Rightarrow> list_ex (\<lambda>pattern. MatchString pattern str) (piiValuePatterns d)
      | _ \<Rightarrow> False)"

section \<open>Redactor (helpers.go)\<close>

record Redactor =
  redactionString :: string

definition NewRedactor :: Redactor where
  "NewRedactor = \<lparr> redactionString = ''[REDACTED]'' \<rparr>"

definition WithRedactionString :: "Redactor \<Rightarrow> string \<Rightarrow> Redactor" where
  "WithRedactionString r s = r\<lparr> redactionString := s \<rparr>"

text \<open>\<open>Redact\<close> replaces a string that the default detector takes for PII, and nothing else.\<close>

definition Redact :: "Redactor \<Rightarrow> val \<Rightarrow> val" where
  "Redact r v =
     (case v of
        VNil \<Rightarrow> v
      | VString str \<Rightarrow>
          if IsPIIValue NewPIIDetector (VString str) then VString (redactionString r) else v
      | _ \<Rightarrow> v)"

text \<open>
  \<open>RedactMap\<close> and \<open>RedactSlice\<close> call each other. \<open>RedactMapValue\<close> is the body of the
  loop of \<open>RedactMap\<close> for one entry, \<open>RedactSliceValue\<close> that of \<open>RedactSlice\<close> for one
  element.
\<close>

fun RedactMapValue :: "Redactor \<Rightarrow> PIIDetector \<Rightarrow> string \<Rightarrow> val \<Rightarrow> val"
  and RedactMapEntries :: "Redactor \<Rightarrow> PIIDetector \<Rightarrow> (string \<times> val) list \<Rightarrow> (string \<times> val) list"
  and RedactSliceValue :: "Redactor \<Rightarrow> PIIDetector \<Rightarrow> val \<Rightarrow> val"
  and RedactSliceElems :: "Redactor \<Rightarrow> PIIDetector \<Rightarrow> val list \<Rightarrow> val list"
where
  "RedactMapValue r d key v =
     (if IsPIIField d key then VString (redactionString r)
      else if IsPIIValue d v then VString (redactionString r)
      else case v of
             VMap None \<Rightarrow> VMap None
           | VMap (Some es) \<Rightarrow> VMap (Some (RedactMapEntries r d es))
           | VSlice None \<Rightarrow> VSlice None
           | VSlice (Some xs) \<Rightarrow> VSlice (Some (RedactSliceElems r d xs))
           | _ \<Rightarrow> v)"
| "RedactMapEntries r d [] = []"
| "RedactMapEntries r d ((key, v) # es) = (key, RedactMapValue r d key v) # RedactMapEntries r d es"
| "RedactSliceValue r d v =
     (if IsPIIValue d v then VString (redactionString r)
      else case v of
             VMap None \<Rightarrow> VMap None
           | VMap (Some es) \<Rightarrow> VMap (Some (RedactMapEntries r d es))
           | _ \<Rightarrow> v)"
| "RedactSliceElems r d [] = []"
| "RedactSliceElems r d (v # xs) = RedactSliceValue r d v # RedactSliceElems r d xs"

definition RedactMap :: "Redactor \<Rightarrow> gomap \<Rightarrow> PIIDetector \<Rightarrow> gomap" where
  "RedactMap r data d = (case data of None \<Rightarrow> None | Some es \<Rightarrow> Some (RedactMapEntries r d es))"

definition RedactSlice :: "Redactor \<Rightarrow> goslice \<Rightarrow> PIIDetector \<Rightarrow> goslice" where
  "RedactSlice r sl d = (case sl of None \<Rightarrow> None | Some xs \<Rightarrow> Some (RedactSliceElems r d xs))"

definition RedactParams :: "Redactor \<Rightarrow> goslice \<Rightarrow> goslice" where
  "RedactParams r params =
     (case params of
        None \<Rightarrow> None
      | Some xs \<Rightarrow>
          Some (map (\<lambda>param. if IsPIIValue NewPIIDetector param then VString (redactionString r) else param) xs))"

section \<open>Event model\<close>

type_synonym int32 = "32 word"
type_synonym int64 = "64 word"

text \<open>A \<open>time.Time\<close>, as the reading of the clock that \<open>time.Now()\<close> returned.\<close>

type_synonym instant = nat

text \<open>
  Modelled from the spec: the field \<open>API\<close> of \<open>BaseEvent\<close>. \<open>createBaseEvent\<close> of
  producer.go sets it and styled output reads it through \<open>GetAPI\<close>; the declaration of
  \<open>BaseEvent\<close> among the sources has the other six fields.
\<close>

record BaseEvent =
  EventType :: string
  Timestamp :: instant
  Service :: string
  API :: string
  Host :: string
  CorrelationID :: string
  Metadata :: gomap

datatype ActorType = ActorTypeHuman | ActorTypeSystem | ActorTypeSynthetic

record Actor =
  UserID :: string
  ActorType :: ActorType

record Resource =
  Type :: string
  ID :: string

datatype Status = StatusSuccess | StatusError

text \<open>
  One constructor for each event struct, its fields in the order of the declaration
  (\<open>Base\<close> first). A pointer that may be nil is an \<open>option\<close>, as is a \<open>[]string\<close>.
\<close>

datatype event =
    ServiceStartedEvent BaseEvent string int32
  | ServiceHealthyEvent BaseEvent "string list option"
  | ServiceShutdownEvent BaseEvent string int32
  | ServiceCrashedEvent BaseEvent string string int32
  | RequestReceivedEvent BaseEvent string string string string
  | RequestHandledEvent BaseEvent "Actor option" "Resource option" Status int64 int32 int64
  | RequestErroredEvent BaseEvent Status string string int32 int64
  | RequestRetriedEvent BaseEvent int32 int64 string
  | QueryStartedEvent BaseEvent string string goslice
  | QueryCompletedEvent BaseEvent string int64 int64
  | QueryErroredEvent BaseEvent string string string int64
  | TransactionStartedEvent BaseEvent string
  | TransactionCommittedEvent BaseEvent string int64
  | TransactionRolledBackEvent BaseEvent string string int64
  | ResourceCreatedEvent BaseEvent "Actor option" "Resource option" gomap
  | ResourceUpdatedEvent BaseEvent "Actor option" "Resource option" gomap gomap "string list option"
  | ResourceDeletedEvent BaseEvent "Actor option" "Resource option" bool gomap

fun Base :: "event \<Rightarrow> BaseEvent" where
  "Base (ServiceStartedEvent b _ _) = b"
| "Base (ServiceHealthyEvent b _) = b"
| "Base (ServiceShutdownEvent b _ _) = b"
| "Base (ServiceCrashedEvent b _ _ _) = b"
| "Base (RequestReceivedEvent b _ _ _ _) = b"
| "Base (RequestHandledEvent b _ _ _ _ _ _) = b"
| "Base (RequestErroredEvent b _ _ _ _ _) = b"
| "Base (RequestRetriedEvent b _ _ _) = b"
| "Base (QueryStartedEvent b _ _ _) = b"
| "Base (QueryCompletedEvent b _ _ _) = b"
| "Base (QueryErroredEvent b _ _ _ _) = b"
| "Base (TransactionStartedEvent b _) = b"
| "Base (TransactionCommittedEvent b _ _) = b"
| "Base (TransactionRolledBackEvent b _ _ _) = b"
| "Base (ResourceCreatedEvent b _ _ _) = b"
| "Base (ResourceUpdatedEvent b _ _ _ _ _) = b"
| "Base (ResourceDeletedEvent b _ _ _ _) = b"

definition GetEventType :: "event \<Rightarrow> string" where
  "GetEventType e = EventType (Base e)"

definition GetCorrelationID :: "event \<Rightarrow> string" where
  "GetCorrelationID e = CorrelationID (Base e)"

definition GetAPI :: "event \<Rightarrow> string" where
  "GetAPI e = API (Base e)"

text \<open>
  \<open>RedactPII\<close> is the method of the three events that implement \<open>EventWithData\<close>;
  \<open>IsEventWithData\<close> is the type assertion \<open>event.(EventWithData)\<close>.
\<close>

fun IsEventWithData :: "event \<Rightarrow> bool" where
  "IsEventWithData (ResourceCreatedEvent _ _ _ _) = True"
| "IsEventWithData (ResourceUpdatedEvent _ _ _ _ _ _) = True"
| "IsEventWithData (ResourceDeletedEvent _ _ _ _ _) = True"
| "IsEventWithData _ = False"

fun RedactPII :: "event \<Rightarrow> PIIDetector \<Rightarrow> Redactor \<Rightarrow> event" where
  "RedactPII (ResourceCreatedEvent b a res ResourceData) detector redactor =
     ResourceCreatedEvent b a res
       (if ResourceData \<noteq> None then RedactMap redactor ResourceData detector else ResourceData)"
| "RedactPII (ResourceUpdatedEvent b a res PreviousData NewData fs) detector redactor =
     ResourceUpdatedEvent b a res
       (if PreviousData \<noteq> None then RedactMap redactor PreviousData detector else PreviousData)
       (if NewData \<noteq> None then RedactMap redactor NewData detector else NewData)
       fs"
| "RedactPII (ResourceDeletedEvent b a res soft FinalData) detector redactor =
     ResourceDeletedEvent b a res soft
       (if FinalData \<noteq> None then RedactMap redactor FinalData detector else FinalData)"
| "RedactPII e detector redactor = e"

text \<open>
  Modelled from the spec: the flags \<open>PII\<close> and \<open>Sensitive\<close> of \<open>FieldAnnotations\<close>
  (sensitivity metadata \<open>{pii, encrypted, redactable, sensitive}\<close>). \<open>redactData\<close> and
  \<open>ShouldRedact\<close> read all four; the declaration among the sources has \<open>Encrypted\<close> and
  \<open>Redactable\<close>.
\<close>

record FieldAnnotations =
  PII :: bool
  Encrypted :: bool
  Redactable :: bool
  Sensitive :: bool

definition ShouldRedact :: "FieldAnnotations \<Rightarrow> bool" where
  "ShouldRedact annotations =
     (PII annotations \<or> Redactable annotations \<or> Encrypted annotations \<or> Sensitive annotations)"

section \<open>Color registry (colors.go)\<close>

record ColorRegistry =
  serviceColors :: "string \<rightharpoonup> string"
  apiColors :: "string \<rightharpoonup> string"
  eventColors :: "string \<rightharpoonup> string"
  statusColors :: "string \<rightharpoonup> string"

definition defaultStatusColors :: "string \<rightharpoonup> string" where
  "defaultStatusColors = map_of [
     (''success'', ''#00FF00''),
     (''error'', ''#FF0000''),
     (''warning'', ''#FFA500''),
     (''info'', ''#00BFFF''),
     (''pending'', ''#FFFF00''),
     (''in_progress'', ''#9370DB''),
     (''completed'', ''#00FF00''),
     (''failed'', ''#FF0000''),
     (''cancelled'', ''#808080''),
     (''created'', ''#00BFFF''),
     (''updated'', ''#FFA500''),
     (''deleted'', ''#FF0000'')]"

definition NewColorRegistry :: ColorRegistry where
  "NewColorRegistry = \<lparr>
     serviceColors = Map.empty,
     apiColors = Map.empty,
     eventColors = Map.empty,
     statusColors = defaultStatusColors \<rparr>"

definition RegisterServiceColor :: "ColorRegistry \<Rightarrow> string \<Rightarrow> string \<Rightarrow> ColorRegistry" where
  "RegisterServiceColor r service color = r\<lparr> serviceColors := (serviceColors r)(service \<mapsto> color) \<rparr>"

definition RegisterAPIColor :: "ColorRegistry \<Rightarrow> string \<Rightarrow> string \<Rightarrow> ColorRegistry" where
  "RegisterAPIColor r api color = r\<lparr> apiColors := (apiColors r)(api \<mapsto> color) \<rparr>"

definition RegisterEventColor :: "ColorRegistry \<Rightarrow> string \<Rightarrow> string \<Rightarrow> ColorRegistry" where
  "RegisterEventColor r eventType color = r\<lparr> eventColors := (eventColors r)(eventType \<mapsto> color) \<rparr>"

definition RegisterStatusColor :: "ColorRegistry \<Rightarrow> string \<Rightarrow> string \<Rightarrow> ColorRegistry" where
  "RegisterStatusColor r status color = r\<lparr> statusColors := (statusColors r)(status \<mapsto> color) \<rparr>"

text \<open>Reading a Go map at a key it does not hold gives the empty string.\<close>

definition GetServiceColor :: "ColorRegistry \<Rightarrow> string \<Rightarrow> string" where
  "GetServiceColor r service = (case serviceColors r service of Some color \<Rightarrow> color | None \<Rightarrow> [])"

definition GetAPIColor :: "ColorRegistry \<Rightarrow> string \<Rightarrow> string" where
  "GetAPIColor r api = (case apiColors r api of Some color \<Rightarrow> color | None \<Rightarrow> [])"

definition GetEventColor :: "ColorRegistry \<Rightarrow> string \<Rightarrow> string" where
  "GetEventColor r eventType = (case eventColors r eventType of Some color \<Rightarrow> color | None \<Rightarrow> [])"

definition GetStatusColor :: "ColorRegistry \<Rightarrow> string \<Rightarrow> string" where
  "GetStatusColor r status = (case statusColors r status of Some color \<Rightarrow> color | None \<Rightarrow> ''#808080'')"

text \<open>A registration call, to speak of the registries that calls can build.\<close>

datatype registration =
    RegService string string
  | RegAPI string string
  | RegEvent string string
  | RegStatus string string

fun register :: "ColorRegistry \<Rightarrow> registration \<Rightarrow> ColorRegistry" where
  "register r (RegService k c) = RegisterServiceColor r k c"
| "register r (RegAPI k c) = RegisterAPIColor r k c"
| "register r (RegEvent k c) = RegisterEventColor r k c"
| "register r (RegStatus k c) = RegisterStatusColor r k c"

fun color_of :: "registration \<Rightarrow> string" where
  "color_of (RegService k c) = c"
| "color_of (RegAPI k c) = c"
| "color_of (RegEvent k c) = c"
| "color_of (RegStatus k c) = c"

section \<open>Styled output\<close>

text \<open>
  An \<open>io.Writer\<close>: which one it is, and whether a write to it returns an error.
\<close>

record Writer =
  wid :: nat
  failing :: bool

record StyledOutput =
  jsonOutput :: "Writer option"
  jsonOnly :: bool
  styledColorRegistry :: "ColorRegistry option"

definition getStatusCodeColor :: "StyledOutput \<Rightarrow> int32 \<Rightarrow> string" where
  "getStatusCodeColor s statusCode =
     (case styledColorRegistry s of
        None \<Rightarrow> []
      | Some registry \<Rightarrow>
          if 200 \<le> sint statusCode \<and> sint statusCode < 300 then GetStatusColor registry ''success''
          else if 300 \<le> sint statusCode \<and> sint statusCode < 400 then GetStatusColor registry ''info''
          else if 400 \<le> sint statusCode \<and> sint statusCode < 500 then GetStatusColor registry ''warning''
          else if 500 \<le> sint statusCode then GetStatusColor registry ''error''
          else [])"

section \<open>Producer (producer.go)\<close>

datatype OTelIntegration = OTelIntegration

text \<open>
  The fields of \<open>Producer\<close> that the emission path reads. The detector and the redactor
  are held by pointer in the source and a nil one makes the first call on it panic; the
  options that set them are given non-nil values here. \<open>logger\<close> is never read;
  \<open>output_writer\<close> is the field \<open>output\<close>.
\<close>

record Producer =
  service :: string
  api :: string
  host :: string
  output_writer :: Writer
  styled :: "StyledOutput option"
  colorRegistry :: "ColorRegistry option"
  piiDetector :: PIIDetector
  redactor :: Redactor
  otel :: "OTelIntegration option"

definition stdout :: Writer where
  "stdout = \<lparr> wid = 1, failing = False \<rparr>"

definition NewProducer :: "string \<Rightarrow> string \<Rightarrow> (Producer \<Rightarrow> Producer) list \<Rightarrow> Producer" where
  "NewProducer service0 host0 opts =
     fold (\<lambda>opt p. opt p) opts \<lparr>
       service = service0,
       api = [],
       host = host0,
       output_writer = stdout,
       styled = None,
       colorRegistry = Some NewColorRegistry,
       piiDetector = NewPIIDetector,
       redactor = NewRedactor,
       otel = Some OTelIntegration \<rparr>"

definition WithAPI :: "string \<Rightarrow> Producer \<Rightarrow> Producer" where
  "WithAPI a p = p\<lparr> api := a \<rparr>"

definition WithOutput :: "Writer \<Rightarrow> Producer \<Rightarrow> Producer" where
  "WithOutput w p = p\<lparr> output_writer := w \<rparr>"

definition WithStyledOutput :: "StyledOutput \<Rightarrow> Producer \<Rightarrow> Producer" where
  "WithStyledOutput s p = p\<lparr> styled := Some s \<rparr>"

definition WithPIIDetector :: "PIIDetector \<Rightarrow> Producer \<Rightarrow> Producer" where
  "WithPIIDetector d p = p\<lparr> piiDetector := d \<rparr>"

definition WithRedactor :: "Redactor \<Rightarrow> Producer \<Rightarrow> Producer" where
  "WithRedactor r p = p\<lparr> redactor := r \<rparr>"

text \<open>
  \<open>createBaseEvent\<close>; \<open>now\<close> is what \<open>time.Now()\<close> returns, \<open>apis\<close> the variadic
  argument.
\<close>

definition createBaseEvent ::
  "Producer \<Rightarrow> instant \<Rightarrow> string \<Rightarrow> string \<Rightarrow> gomap \<Rightarrow> string list \<Rightarrow> BaseEvent" where
  "createBaseEvent p now eventType correlationID metadata apis =
     (let apiID = (if length apis > 0 \<and> hd apis \<noteq> [] then hd apis else api p)
      in \<lparr> EventType = eventType,
           Timestamp = now,
           Service = service p,
           API = apiID,
           Host = host p,
           CorrelationID = correlationID,
           Metadata = metadata \<rparr>)"

text \<open>
  \<open>redactData\<close>. \<open>redactDataValue\<close> is the body of its loop for one entry,
  \<open>redactDataItem\<close> the body of the inner loop over a slice for one item. A nil slice
  comes out as the empty slice that \<open>make\<close> returns.
\<close>

fun redactDataValue :: "Producer \<Rightarrow> (string \<rightharpoonup> FieldAnnotations) \<Rightarrow> string \<Rightarrow> val \<Rightarrow> val"
  and redactDataEntries :: "Producer \<Rightarrow> (string \<rightharpoonup> FieldAnnotations) \<Rightarrow> (string \<times> val) list \<Rightarrow> (string \<times> val) list"
  and redactDataItem :: "Producer \<Rightarrow> (string \<rightharpoonup> FieldAnnotations) \<Rightarrow> val \<Rightarrow> val"
  and redactDataItems :: "Producer \<Rightarrow> (string \<rightharpoonup> FieldAnnotations) \<Rightarrow> val list \<Rightarrow> val list"
where
  "redactDataValue p schemaAnnotations key v =
     (let shouldRedact =
            (case schemaAnnotations key of
               Some annotations \<Rightarrow>
                 PII annotations \<or> Redactable annotations \<or> Encrypted annotations \<or> Sensitive annotations
             | None \<Rightarrow> False);
          shouldRedact =
            (if \<not> shouldRedact
             then IsPIIField (piiDetector p) key \<or> IsPIIValue (piiDetector p) v
             else shouldRedact)
      in if shouldRedact then Redact (redactor p) v
         else case v of
                VMap None \<Rightarrow> VMap None
              | VMap (Some es) \<Rightarrow> VMap (Some (redactDataEntries p schemaAnnotations es))
              | VSlice None \<Rightarrow> VSlice (Some [])
              | VSlice (Some xs) \<Rightarrow> VSlice (Some (redactDataItems p schemaAnnotations xs))
              | _ \<Rightarrow> v)"
| "redactDataEntries p schemaAnnotations [] = []"
| "redactDataEntries p schemaAnnotations ((key, v) # es) =
     (key, redactDataValue p schemaAnnotations key v) # redactDataEntries p schemaAnnotations es"
| "redactDataItem p schemaAnnotations item =
     (case item of
        VMap None \<Rightarrow> VMap None
      | VMap (Some es) \<Rightarrow> VMap (Some (redactDataEntries p schemaAnnotations es))
      | _ \<Rightarrow> if IsPIIValue (piiDetector p) item then Redact (redactor p) item else item)"
| "redactDataItems p schemaAnnotations [] = []"
| "redactDataItems p schemaAnnotations (item # xs) =
     redactDataItem p schemaAnnotations item # redactDataItems p schemaAnnotations xs"

definition redactData :: "Producer \<Rightarrow> gomap \<Rightarrow> (string \<rightharpoonup> FieldAnnotations) \<Rightarrow> gomap" where
  "redactData p data schemaAnnotations =
     (case data of None \<Rightarrow> None | Some es \<Rightarrow> Some (redactDataEntries p schemaAnnotations es))"

section \<open>Serialization with encoding/json\<close>

datatype json =
    JNull
  | JString string
  | JNumber int
  | JBool bool
  | JArray "json list"
  | JObject "(string \<times> json) list"

text \<open>
  What this development takes from the Go libraries: whether and how \<open>json.Marshal\<close>
  encodes a value of a dynamic type that is kept opaque here (\<open>None\<close>: it returns an
  error), the text of a \<open>time.Time\<close>, and the text of a JSON value.
\<close>

record JSONLib =
  jsonOther :: "nat \<Rightarrow> json option"
  timeText :: "instant \<Rightarrow> string"
  encode :: "json \<Rightarrow> string"

fun MarshalVal :: "JSONLib \<Rightarrow> val \<Rightarrow> json option"
  and MarshalEntries :: "JSONLib \<Rightarrow> (string \<times> val) list \<Rightarrow> (string \<times> json) list option"
  and MarshalElems :: "JSONLib \<Rightarrow> val list \<Rightarrow> json list option"
where
  "MarshalVal lib VNil = Some JNull"
| "MarshalVal lib (VString s) = Some (JString s)"
| "MarshalVal lib (VInt i) = Some (JNumber i)"
| "MarshalVal lib (VBool b) = Some (JBool b)"
| "MarshalVal lib (VOther n) = jsonOther lib n"
| "MarshalVal lib (VMap None) = Some JNull"
| "MarshalVal lib (VMap (Some es)) = map_option JObject (MarshalEntries lib es)"
| "MarshalVal lib (VSlice None) = Some JNull"
| "MarshalVal lib (VSlice (Some xs)) = map_option JArray (MarshalElems lib xs)"
| "MarshalEntries lib [] = Some []"
| "MarshalEntries lib ((k, v) # es) =
     (case MarshalVal lib v of
        None \<Rightarrow> None
      | Some j \<Rightarrow> map_option (\<lambda>js. (k, j) # js) (MarshalEntries lib es))"
| "MarshalElems lib [] = Some []"
| "MarshalElems lib (v # xs) =
     (case MarshalVal lib v of
        None \<Rightarrow> None
      | Some j \<Rightarrow> map_option (\<lambda>js. j # js) (MarshalElems lib xs))"

text \<open>The struct tags: a field, and a field tagged \<open>omitempty\<close>, of each kind.\<close>

definition str_field :: "string \<Rightarrow> string \<Rightarrow> (string \<times> json) list" where
  "str_field name s = [(name, JString s)]"

definition str_omitempty :: "string \<Rightarrow> string \<Rightarrow> (string \<times> json) list" where
  "str_omitempty name s = (if s = [] then [] else [(name, JString s)])"

definition int32_field :: "string \<Rightarrow> int32 \<Rightarrow> (string \<times> json) list" where
  "int32_field name n = [(name, JNumber (sint n))]"

definition int64_field :: "string \<Rightarrow> int64 \<Rightarrow> (string \<times> json) list" where
  "int64_field name n = [(name, JNumber (sint n))]"

definition int64_omitempty :: "string \<Rightarrow> int64 \<Rightarrow> (string \<times> json) list" where
  "int64_omitempty name n = (if n = 0 then [] else [(name, JNumber (sint n))])"

definition strings_json :: "string list option \<Rightarrow> json" where
  "strings_json xs = (case xs of None \<Rightarrow> JNull | Some ys \<Rightarrow> JArray (map JString ys))"

definition strings_omitempty :: "string \<Rightarrow> string list option \<Rightarrow> (string \<times> json) list" where
  "strings_omitempty name xs =
     (if xs = None \<or> xs = Some [] then [] else [(name, strings_json xs)])"

definition map_omitempty :: "JSONLib \<Rightarrow> string \<Rightarrow> gomap \<Rightarrow> (string \<times> json) list option" where
  "map_omitempty lib name m =
     (if m = None \<or> m = Some [] then Some []
      else map_option (\<lambda>j. [(name, j)]) (MarshalVal lib (VMap m)))"

definition slice_omitempty :: "JSONLib \<Rightarrow> string \<Rightarrow> goslice \<Rightarrow> (string \<times> json) list option" where
  "slice_omitempty lib name xs =
     (if xs = None \<or> xs = Some [] then Some []
      else map_option (\<lambda>j. [(name, j)]) (MarshalVal lib (VSlice xs)))"

fun ActorType_json :: "ActorType \<Rightarrow> json" where
  "ActorType_json ActorTypeHuman = JString ''human''"
| "ActorType_json ActorTypeSystem = JString ''system''"
| "ActorType_json ActorTypeSynthetic = JString ''synthetic''"

fun Status_json :: "Status \<Rightarrow> json" where
  "Status_json StatusSuccess = JString ''success''"
| "Status_json StatusError = JString ''error''"

definition Actor_json :: "Actor \<Rightarrow> json" where
  "Actor_json a = JObject [(''user_id'', JString (UserID a)), (''actor_type'', ActorType_json (ActorType a))]"

definition Resource_json :: "Resource \<Rightarrow> json" where
  "Resource_json r = JObject [(''type'', JString (Type r)), (''id'', JString (ID r))]"

definition actor_omitempty :: "Actor option \<Rightarrow> (string \<times> json) list" where
  "actor_omitempty a = (case a of None \<Rightarrow> [] | Some x \<Rightarrow> [(''actor'', Actor_json x)])"

definition resource_omitempty :: "Resource option \<Rightarrow> (string \<times> json) list" where
  "resource_omitempty r = (case r of None \<Rightarrow> [] | Some x \<Rightarrow> [(''resource'', Resource_json x)])"

definition resource_field :: "Resource option \<Rightarrow> (string \<times> json) list" where
  "resource_field r = [(''resource'', case r of None \<Rightarrow> JNull | Some x \<Rightarrow> Resource_json x)]"

text \<open>
  Modelled from the spec: the JSON name \<open>api\<close> of the field \<open>API\<close>, left out when
  empty as the optional \<open>correlation_id\<close> is. The other names are the struct tags of
  \<open>BaseEvent\<close>.
\<close>

definition MarshalBase :: "JSONLib \<Rightarrow> BaseEvent \<Rightarrow> json option" where
  "MarshalBase lib b =
     map_option
       (\<lambda>metadata. JObject (
          str_field ''event_type'' (EventType b) @
          str_field ''timestamp'' (timeText lib (Timestamp b)) @
          str_field ''service'' (Service b) @
          str_omitempty ''api'' (API b) @
          str_field ''host'' (Host b) @
          str_omitempty ''correlation_id'' (CorrelationID b) @
          metadata))
       (map_omitempty lib ''metadata'' (Metadata b))"

text \<open>
  \<open>obj lib b own\<close> is the object of an event struct: its \<open>Base\<close> under the tag
  \<open>base\<close>, then its own fields. A payload that cannot be encoded fails the whole call.
\<close>

definition obj :: "JSONLib \<Rightarrow> BaseEvent \<Rightarrow> (string \<times> json) list option \<Rightarrow> json option" where
  "obj lib b own =
     (case MarshalBase lib b of
        None \<Rightarrow> None
      | Some jb \<Rightarrow> map_option (\<lambda>fs. JObject ((''base'', jb) # fs)) own)"

definition both :: "(string \<times> json) list option \<Rightarrow> (string \<times> json) list option \<Rightarrow> (string \<times> json) list option" where
  "both x y = (case x of None \<Rightarrow> None | Some xs \<Rightarrow> map_option (\<lambda>ys. xs @ ys) y)"

fun MarshalEvent :: "JSONLib \<Rightarrow> event \<Rightarrow> json option" where
  "MarshalEvent lib (ServiceStartedEvent b Version PID) =
     obj lib b (Some (str_field ''version'' Version @ int32_field ''pid'' PID))"
| "MarshalEvent lib (ServiceHealthyEvent b HealthChecks) =
     obj lib b (Some [(''health_checks'', strings_json HealthChecks)])"
| "MarshalEvent lib (ServiceShutdownEvent b Reason ExitCode) =
     obj lib b (Some (str_field ''reason'' Reason @ int32_field ''exit_code'' ExitCode))"
| "MarshalEvent lib (ServiceCrashedEvent b Reason StackTrace ExitCode) =
     obj lib b (Some (str_field ''reason'' Reason @ str_field ''stack_trace'' StackTrace @
       int32_field ''exit_code'' ExitCode))"
| "MarshalEvent lib (RequestReceivedEvent b Method Path UserAgent RemoteAddr) =
     obj lib b (Some (str_field ''method'' Method @ str_field ''path'' Path @
       str_omitempty ''user_agent'' UserAgent @ str_omitempty ''remote_addr'' RemoteAddr))"
| "MarshalEvent lib (RequestHandledEvent b actor resource status DurationMs StatusCode ResponseSizeBytes) =
     obj lib b (Some (actor_omitempty actor @ resource_omitempty resource @
       [(''status'', Status_json status)] @ int64_field ''duration_ms'' DurationMs @
       int32_field ''status_code'' StatusCode @ int64_omitempty ''response_size_bytes'' ResponseSizeBytes))"
| "MarshalEvent lib (RequestErroredEvent b status ErrorMessage ErrorCode StatusCode DurationMs) =
     obj lib b (Some ([(''status'', Status_json status)] @ str_field ''error_message'' ErrorMessage @
       str_omitempty ''error_code'' ErrorCode @ int32_field ''status_code'' StatusCode @
       int64_field ''duration_ms'' DurationMs))"
| "MarshalEvent lib (RequestRetriedEvent b RetryCount DelayMs RetryReason) =
     obj lib b (Some (int32_field ''retry_count'' RetryCount @ int64_field ''delay_ms'' DelayMs @
       str_omitempty ''retry_reason'' RetryReason))"
| "MarshalEvent lib (QueryStartedEvent b QueryID Query Params) =
     obj lib b (both (Some (str_field ''query_id'' QueryID @ str_field ''query'' Query))
       (slice_omitempty lib ''params'' Params))"
| "MarshalEvent lib (QueryCompletedEvent b QueryID DurationMs RowsAffected) =
     obj lib b (Some (str_field ''query_id'' QueryID @ int64_field ''duration_ms'' DurationMs @
       int64_omitempty ''rows_affected'' RowsAffected))"
| "MarshalEvent lib (QueryErroredEvent b QueryID ErrorMessage ErrorCode DurationMs) =
     obj lib b (Some (str_field ''query_id'' QueryID @ str_field ''error_message'' ErrorMessage @
       str_omitempty ''error_code'' ErrorCode @ int64_field ''duration_ms'' DurationMs))"
| "MarshalEvent lib (TransactionStartedEvent b TransactionID) =
     obj lib b (Some (str_field ''transaction_id'' TransactionID))"
| "MarshalEvent lib (TransactionCommittedEvent b TransactionID DurationMs) =
     obj lib b (Some (str_field ''transaction_id'' TransactionID @ int64_field ''duration_ms'' DurationMs))"
| "MarshalEvent lib (TransactionRolledBackEvent b TransactionID Reason DurationMs) =
     obj lib b (Some (str_field ''transaction_id'' TransactionID @ str_omitempty ''reason'' Reason @
       int64_field ''duration_ms'' DurationMs))"
| "MarshalEvent lib (ResourceCreatedEvent b actor resource ResourceData) =
     obj lib b (both (Some (actor_omitempty actor @ resource_field resource))
       (map_omitempty lib ''resource_data'' ResourceData))"
| "MarshalEvent lib (ResourceUpdatedEvent b actor resource PreviousData NewData UpdatedFields) =
     obj lib b (both (both (both (Some (actor_omitempty actor @ resource_field resource))
       (map_omitempty lib ''previous_data'' PreviousData))
       (map_omitempty lib ''new_data'' NewData))
       (Some (strings_omitempty ''updated_fields'' UpdatedFields)))"
| "MarshalEvent lib (ResourceDeletedEvent b actor resource SoftDelete FinalData) =
     obj lib b (both (Some (actor_omitempty actor @ resource_field resource @
       [(''soft_delete'', JBool SoftDelete)]))
       (map_omitempty lib ''final_data'' FinalData))"

definition top_level_names :: "json \<Rightarrow> string list" where
  "top_level_names j = (case j of JObject fs \<Rightarrow> map fst fs | _ \<Rightarrow> [])"

section \<open>Emission (producer.go, styled output)\<close>

text \<open>
  What an emission does, in the order of the calls: the call of \<open>RedactPII\<close> on the
  event, the calls on the telemetry collaborator, \<open>json.Marshal\<close> of an event,
  \<open>fmt.Fprintln\<close> of a text to a writer, and the styled line for an event
  (\<open>writeStyledEvent\<close>, which returns no error).
\<close>

datatype action =
    CallRedactPII event
  | StartSpan string
  | RecordMetric string int64
  | SpanEnd
  | Marshal event
  | Fprintln Writer string
  | StyledLog event

datatype error =
    FailedToMarshalEvent
  | FailedToWriteEvent
  | FailedToWriteJSONEvent
  | FailedToWriteStyledEvent error

definition newline :: string where
  "newline = [CHR 0x0A]"

text \<open>
  \<open>json.Marshal(event)\<close> followed by \<open>fmt.Fprintln(w, string(jsonData))\<close>; \<open>errW\<close> is
  the error of the caller for a failed write.
\<close>

definition marshal_and_print :: "JSONLib \<Rightarrow> Writer \<Rightarrow> error \<Rightarrow> event \<Rightarrow> error option \<times> action list" where
  "marshal_and_print lib w errW e =
     (case MarshalEvent lib e of
        None \<Rightarrow> (Some FailedToMarshalEvent, [Marshal e])
      | Some jsonData \<Rightarrow>
          if failing w
          then (Some errW, [Marshal e, Fprintln w (encode lib jsonData @ newline)])
          else (None, [Marshal e, Fprintln w (encode lib jsonData @ newline)]))"

definition WriteEvent :: "StyledOutput \<Rightarrow> JSONLib \<Rightarrow> event \<Rightarrow> error option \<times> action list" where
  "WriteEvent s lib e =
     (let (err, tr) =
            (case jsonOutput s of
               None \<Rightarrow> (None, [])
             | Some w \<Rightarrow> marshal_and_print lib w FailedToWriteJSONEvent e)
      in if err \<noteq> None then (err, tr)
         else if jsonOnly s then (None, tr)
         else (None, tr @ [StyledLog e]))"

text \<open>A context, read at the string keys that the producer uses.\<close>

type_synonym Context = "string \<Rightarrow> val option"

definition emitEvent ::
  "Producer \<Rightarrow> JSONLib \<Rightarrow> Context \<Rightarrow> event \<Rightarrow> int64 \<Rightarrow> error option \<times> action list" where
  "emitEvent p lib ctx e duration =
     (let redact = (if IsEventWithData e then [CallRedactPII e] else []);
          e' = (if IsEventWithData e then RedactPII e (piiDetector p) (redactor p) else e);
          span = (if otel p \<noteq> None
                  then [StartSpan (GetEventType e'), RecordMetric (GetEventType e') duration]
                  else []);
          deferred = (if otel p \<noteq> None then [SpanEnd] else []);
          (err, tr) =
            (case styled p of
               Some s \<Rightarrow>
                 (case WriteEvent s lib e' of
                    (Some err, tr) \<Rightarrow> (Some (FailedToWriteStyledEvent err), tr)
                  | (None, tr) \<Rightarrow> (None, tr))
             | None \<Rightarrow> marshal_and_print lib (output_writer p) FailedToWriteEvent e')
      in (err, redact @ span @ tr @ deferred))"

text \<open>The events that reach serialization, and the texts handed to writers.\<close>

fun serialized :: "action list \<Rightarrow> event list" where
  "serialized [] = []"
| "serialized (Marshal e # tr) = e # serialized tr"
| "serialized (StyledLog e # tr) = e # serialized tr"
| "serialized (_ # tr) = serialized tr"

fun printed :: "action list \<Rightarrow> string list" where
  "printed [] = []"
| "printed (Fprintln w t # tr) = t # printed tr"
| "printed (_ # tr) = printed tr"

subsection \<open>Helper functions\<close>

definition extractCorrelationID :: "Context \<Rightarrow> string" where
  "extractCorrelationID ctx = (case ctx ''correlation_id'' of Some (VString cid) \<Rightarrow> cid | _ \<Rightarrow> [])"

definition extractUserAgent :: "Context \<Rightarrow> string" where
  "extractUserAgent ctx = (case ctx ''user_agent'' of Some (VString ua) \<Rightarrow> ua | _ \<Rightarrow> [])"

definition extractRemoteAddr :: "Context \<Rightarrow> string" where
  "extractRemoteAddr ctx = (case ctx ''remote_addr'' of Some (VString addr) \<Rightarrow> addr | _ \<Rightarrow> [])"

text \<open>\<open>time.Duration(ms) * time.Millisecond\<close>, in the 64 bits of a \<open>time.Duration\<close>.\<close>

definition milliseconds :: "int64 \<Rightarrow> int64" where
  "milliseconds ms = ms * 1000000"

subsection \<open>The emitters\<close>

text \<open>
  For each \<open>EmitX\<close>, \<open>X_event\<close> is the value of its local variable \<open>event\<close>, and
  \<open>EmitX\<close> hands it to \<open>emitEvent\<close>. \<open>now\<close> is the reading of the clock, \<open>apis\<close> the
  variadic argument \<open>api ...string\<close>.
\<close>

definition ServiceStarted_event :: "Producer \<Rightarrow> instant \<Rightarrow> string \<Rightarrow> int32 \<Rightarrow> event" where
  "ServiceStarted_event p now version pid =
     ServiceStartedEvent (createBaseEvent p now ''service.started'' [] None []) version pid"

definition EmitServiceStarted ::
  "Producer \<Rightarrow> JSONLib \<Rightarrow> instant \<Rightarrow> Context \<Rightarrow> string \<Rightarrow> int32 \<Rightarrow> error option \<times> action list" where
  "EmitServiceStarted p lib now ctx version pid =
     emitEvent p lib ctx (ServiceStarted_event p now version pid) 0"

definition ServiceHealthy_event :: "Producer \<Rightarrow> instant \<Rightarrow> string list option \<Rightarrow> event" where
  "ServiceHealthy_event p now healthChecks =
     ServiceHealthyEvent (createBaseEvent p now ''service.healthy'' [] None []) healthChecks"

definition EmitServiceHealthy ::
  "Producer \<Rightarrow> JSONLib \<Rightarrow> instant \<Rightarrow> Context \<Rightarrow> string list option \<Rightarrow> error option \<times> action list" where
  "EmitServiceHealthy p lib now ctx healthChecks =
     emitEvent p lib ctx (ServiceHealthy_event p now healthChecks) 0"

definition ServiceShutdown_event :: "Producer \<Rightarrow> instant \<Rightarrow> string \<Rightarrow> int32 \<Rightarrow> event" where
  "ServiceShutdown_event p now reason exitCode =
     ServiceShutdownEvent (createBaseEvent p now ''service.shutdown'' [] None []) reason exitCode"

definition EmitServiceShutdown ::
  "Producer \<Rightarrow> JSONLib \<Rightarrow> instant \<Rightarrow> Context \<Rightarrow> string \<Rightarrow> int32 \<Rightarrow> error option \<times> action list" where
  "EmitServiceShutdown p lib now ctx reason exitCode =
     emitEvent p lib ctx (ServiceShutdown_event p now reason exitCode) 0"

definition ServiceCrashed_event :: "Producer \<Rightarrow> instant \<Rightarrow> string \<Rightarrow> string \<Rightarrow> int32 \<Rightarrow> event" where
  "ServiceCrashed_event p now reason stackTrace exitCode =
     ServiceCrashedEvent (createBaseEvent p now ''service.crashed'' [] None []) reason stackTrace exitCode"

definition EmitServiceCrashed ::
  "Producer \<Rightarrow> JSONLib \<Rightarrow> instant \<Rightarrow> Context \<Rightarrow> string \<Rightarrow> string \<Rightarrow> int32 \<Rightarrow> error option \<times> action list" where
  "EmitServiceCrashed p lib now ctx reason stackTrace exitCode =
     emitEvent p lib ctx (ServiceCrashed_event p now reason stackTrace exitCode) 0"

definition RequestReceived_event ::
  "Producer \<Rightarrow> instant \<Rightarrow> Context \<Rightarrow> string \<Rightarrow> string \<Rightarrow> string \<Rightarrow> gomap \<Rightarrow> string list \<Rightarrow> event" where
  "RequestReceived_event p now ctx correlationID method path metadata apis =
     RequestReceivedEvent (createBaseEvent p now ''api.request.received'' correlationID metadata apis)
       method path (extractUserAgent ctx) (extractRemoteAddr ctx)"

definition EmitRequestReceived ::
  "Producer \<Rightarrow> JSONLib \<Rightarrow> instant \<Rightarrow> Context \<Rightarrow> string \<Rightarrow> string \<Rightarrow> string \<Rightarrow> gomap \<Rightarrow> string list
   \<Rightarrow> error option \<times> action list" where
  "EmitRequestReceived p lib now ctx correlationID method path metadata apis =
     emitEvent p lib ctx (RequestReceived_event p now ctx correlationID method path metadata apis) 0"

text \<open>
  The local variable \<open>apiID\<close> of \<open>EmitRequestHandled\<close> and of the three resource
  emitters, which all compute it with the same statements.
\<close>

definition inferAPI :: "Resource option \<Rightarrow> string list \<Rightarrow> string" where
  "inferAPI resource apis =
     (if length apis > 0 \<and> hd apis \<noteq> [] then hd apis
      else case resource of
             Some r \<Rightarrow> if Type r \<noteq> [] then Type r else []
           | None \<Rightarrow> [])"

definition RequestHandled_event ::
  "Producer \<Rightarrow> instant \<Rightarrow> string \<Rightarrow> Actor option \<Rightarrow> Resource option \<Rightarrow> int32 \<Rightarrow> int64 \<Rightarrow> int64
   \<Rightarrow> string list \<Rightarrow> event" where
  "RequestHandled_event p now correlationID actor resource statusCode durationMs responseSizeBytes apis =
     RequestHandledEvent
       (createBaseEvent p now ''api.request.handled'' correlationID None [inferAPI resource apis])
       actor resource StatusSuccess durationMs statusCode responseSizeBytes"

definition EmitRequestHandled ::
  "Producer \<Rightarrow> JSONLib \<Rightarrow> instant \<Rightarrow> Context \<Rightarrow> string \<Rightarrow> Actor option \<Rightarrow> Resource option \<Rightarrow> int32
   \<Rightarrow> int64 \<Rightarrow> int64 \<Rightarrow> string list \<Rightarrow> error option \<times> action list" where
  "EmitRequestHandled p lib now ctx correlationID actor resource statusCode durationMs responseSizeBytes apis =
     emitEvent p lib ctx
       (RequestHandled_event p now correlationID actor resource statusCode durationMs responseSizeBytes apis)
       (milliseconds durationMs)"

definition RequestErrored_event ::
  "Producer \<Rightarrow> instant \<Rightarrow> string \<Rightarrow> string \<Rightarrow> string \<Rightarrow> int32 \<Rightarrow> int64 \<Rightarrow> string list \<Rightarrow> event" where
  "RequestErrored_event p now correlationID errorMessage errorCode statusCode durationMs apis =
     RequestErroredEvent (createBaseEvent p now ''api.request.errored'' correlationID None apis)
       StatusError errorMessage errorCode statusCode durationMs"

definition EmitRequestErrored ::
  "Producer \<Rightarrow> JSONLib \<Rightarrow> instant \<Rightarrow> Context \<Rightarrow> string \<Rightarrow> string \<Rightarrow> string \<Rightarrow> int32 \<Rightarrow> int64
   \<Rightarrow> string list \<Rightarrow> error option \<times> action list" where
  "EmitRequestErrored p lib now ctx correlationID errorMessage errorCode statusCode durationMs apis =
     emitEvent p lib ctx
       (RequestErrored_event p now correlationID errorMessage errorCode statusCode durationMs apis)
       (milliseconds durationMs)"

definition RequestRetried_event ::
  "Producer \<Rightarrow> instant \<Rightarrow> string \<Rightarrow> int32 \<Rightarrow> int64 \<Rightarrow> string \<Rightarrow> event" where
  "RequestRetried_event p now correlationID retryCount delayMs retryReason =
     RequestRetriedEvent (createBaseEvent p now ''api.request.retried'' correlationID None [])
       retryCount delayMs retryReason"

definition EmitRequestRetried ::
  "Producer \<Rightarrow> JSONLib \<Rightarrow> instant \<Rightarrow> Context \<Rightarrow> string \<Rightarrow> int32 \<Rightarrow> int64 \<Rightarrow> string
   \<Rightarrow> error option \<times> action list" where
  "EmitRequestRetried p lib now ctx correlationID retryCount delayMs retryReason =
     emitEvent p lib ctx (RequestRetried_event p now correlationID retryCount delayMs retryReason)
       (milliseconds delayMs)"

definition QueryStarted_event ::
  "Producer \<Rightarrow> instant \<Rightarrow> Context \<Rightarrow> string \<Rightarrow> string \<Rightarrow> goslice \<Rightarrow> event" where
  "QueryStarted_event p now ctx queryID query params =
     (let redactedParams = RedactParams (redactor p) params
      in QueryStartedEvent (createBaseEvent p now ''db.query.started'' (extractCorrelationID ctx) None [])
           queryID query redactedParams)"

definition EmitQueryStarted ::
  "Producer \<Rightarrow> JSONLib \<Rightarrow> instant \<Rightarrow> Context \<Rightarrow> string \<Rightarrow> string \<Rightarrow> goslice \<Rightarrow> error option \<times> action list" where
  "EmitQueryStarted p lib now ctx queryID query params =
     emitEvent p lib ctx (QueryStarted_event p now ctx queryID query params) 0"

definition QueryCompleted_event ::
  "Producer \<Rightarrow> instant \<Rightarrow> Context \<Rightarrow> string \<Rightarrow> int64 \<Rightarrow> int64 \<Rightarrow> event" where
  "QueryCompleted_event p now ctx queryID durationMs rowsAffected =
     QueryCompletedEvent (createBaseEvent p now ''db.query.completed'' (extractCorrelationID ctx) None [])
       queryID durationMs rowsAffected"

definition EmitQueryCompleted ::
  "Producer \<Rightarrow> JSONLib \<Rightarrow> instant \<Rightarrow> Context \<Rightarrow> string \<Rightarrow> int64 \<Rightarrow> int64 \<Rightarrow> error option \<times> action list" where
  "EmitQueryCompleted p lib now ctx queryID durationMs rowsAffected =
     emitEvent p lib ctx (QueryCompleted_event p now ctx queryID durationMs rowsAffected)
       (milliseconds durationMs)"

definition QueryErrored_event ::
  "Producer \<Rightarrow> instant \<Rightarrow> Context \<Rightarrow> string \<Rightarrow> string \<Rightarrow> string \<Rightarrow> int64 \<Rightarrow> event" where
  "QueryErrored_event p now ctx queryID errorMessage errorCode durationMs =
     QueryErroredEvent (createBaseEvent p now ''db.query.errored'' (extractCorrelationID ctx) None [])
       queryID errorMessage errorCode durationMs"

definition EmitQueryErrored ::
  "Producer \<Rightarrow> JSONLib \<Rightarrow> instant \<Rightarrow> Context \<Rightarrow> string \<Rightarrow> string \<Rightarrow> string \<Rightarrow> int64
   \<Rightarrow> error option \<times> action list" where
  "EmitQueryErrored p lib now ctx queryID errorMessage errorCode durationMs =
     emitEvent p lib ctx (QueryErrored_event p now ctx queryID errorMessage errorCode durationMs)
       (milliseconds durationMs)"

definition TransactionStarted_event :: "Producer \<Rightarrow> instant \<Rightarrow> Context \<Rightarrow> string \<Rightarrow> event" where
  "TransactionStarted_event p now ctx transactionID =
     TransactionStartedEvent
       (createBaseEvent p now ''db.transaction.started'' (extractCorrelationID ctx) None [])
       transactionID"

definition EmitTransactionStarted ::
  "Producer \<Rightarrow> JSONLib \<Rightarrow> instant \<Rightarrow> Context \<Rightarrow> string \<Rightarrow> error option \<times> action list" where
  "EmitTransactionStarted p lib now ctx transactionID =
     emitEvent p lib ctx (TransactionStarted_event p now ctx transactionID) 0"

definition TransactionCommitted_event :: "Producer \<Rightarrow> instant \<Rightarrow> Context \<Rightarrow> string \<Rightarrow> int64 \<Rightarrow> event" where
  "TransactionCommitted_event p now ctx transactionID durationMs =
     TransactionCommittedEvent
       (createBaseEvent p now ''db.transaction.committed'' (extractCorrelationID ctx) None [])
       transactionID durationMs"

definition EmitTransactionCommitted ::
  "Producer \<Rightarrow> JSONLib \<Rightarrow> instant \<Rightarrow> Context \<Rightarrow> string \<Rightarrow> int64 \<Rightarrow> error option \<times> action list" where
  "EmitTransactionCommitted p lib now ctx transactionID durationMs =
     emitEvent p lib ctx (TransactionCommitted_event p now ctx transactionID durationMs)
       (milliseconds durationMs)"

definition TransactionRolledBack_event ::
  "Producer \<Rightarrow> instant \<Rightarrow> Context \<Rightarrow> string \<Rightarrow> string \<Rightarrow> int64 \<Rightarrow> event" where
  "TransactionRolledBack_event p now ctx transactionID reason durationMs =
     TransactionRolledBackEvent
       (createBaseEvent p now ''db.transaction.rolled_back'' (extractCorrelationID ctx) None [])
       transactionID reason durationMs"

definition EmitTransactionRolledBack ::
  "Producer \<Rightarrow> JSONLib \<Rightarrow> instant \<Rightarrow> Context \<Rightarrow> string \<Rightarrow> string \<Rightarrow> int64 \<Rightarrow> error option \<times> action list" where
  "EmitTransactionRolledBack p lib now ctx transactionID reason durationMs =
     emitEvent p lib ctx (TransactionRolledBack_event p now ctx transactionID reason durationMs)
       (milliseconds durationMs)"

definition ResourceCreated_event ::
  "Producer \<Rightarrow> instant \<Rightarrow> string \<Rightarrow> Actor option \<Rightarrow> Resource option \<Rightarrow> gomap
   \<Rightarrow> (string \<rightharpoonup> FieldAnnotations) \<Rightarrow> string list \<Rightarrow> event" where
  "ResourceCreated_event p now correlationID actor resource resourceData schemaAnnotations apis =
     (let redactedData = redactData p resourceData schemaAnnotations
      in ResourceCreatedEvent
           (createBaseEvent p now ''resource.created'' correlationID None [inferAPI resource apis])
           actor resource redactedData)"

definition EmitResourceCreated ::
  "Producer \<Rightarrow> JSONLib \<Rightarrow> instant \<Rightarrow> Context \<Rightarrow> string \<Rightarrow> Actor option \<Rightarrow> Resource option \<Rightarrow> gomap
   \<Rightarrow> (string \<rightharpoonup> FieldAnnotations) \<Rightarrow> string list \<Rightarrow> error option \<times> action list" where
  "EmitResourceCreated p lib now ctx correlationID actor resource resourceData schemaAnnotations apis =
     emitEvent p lib ctx
       (ResourceCreated_event p now correlationID actor resource resourceData schemaAnnotations apis) 0"

definition ResourceUpdated_event ::
  "Producer \<Rightarrow> instant \<Rightarrow> string \<Rightarrow> Actor option \<Rightarrow> Resource option \<Rightarrow> gomap \<Rightarrow> gomap
   \<Rightarrow> string list option \<Rightarrow> (string \<rightharpoonup> FieldAnnotations) \<Rightarrow> string list \<Rightarrow> event" where
  "ResourceUpdated_event p now correlationID actor resource previousData newData updatedFields
       schemaAnnotations apis =
     (let redactedPrevious = redactData p previousData schemaAnnotations;
          redactedNew = redactData p newData schemaAnnotations
      in ResourceUpdatedEvent
           (createBaseEvent p now ''resource.updated'' correlationID None [inferAPI resource apis])
           actor resource redactedPrevious redactedNew updatedFields)"

definition EmitResourceUpdated ::
  "Producer \<Rightarrow> JSONLib \<Rightarrow> instant \<Rightarrow> Context \<Rightarrow> string \<Rightarrow> Actor option \<Rightarrow> Resource option \<Rightarrow> gomap
   \<Rightarrow> gomap \<Rightarrow> string list option \<Rightarrow> (string \<rightharpoonup> FieldAnnotations) \<Rightarrow> string list
   \<Rightarrow> error option \<times> action list" where
  "EmitResourceUpdated p lib now ctx correlationID actor resource previousData newData updatedFields
       schemaAnnotations apis =
     emitEvent p lib ctx
       (ResourceUpdated_event p now correlationID actor resource previousData newData updatedFields
          schemaAnnotations apis) 0"

definition ResourceDeleted_event ::
  "Producer \<Rightarrow> instant \<Rightarrow> string \<Rightarrow> Actor option \<Rightarrow> Resource option \<Rightarrow> bool \<Rightarrow> gomap
   \<Rightarrow> (string \<rightharpoonup> FieldAnnotations) \<Rightarrow> string list \<Rightarrow> event" where
  "ResourceDeleted_event p now correlationID actor resource softDelete finalData schemaAnnotations apis =
     (let redactedData = redactData p finalData schemaAnnotations
      in ResourceDeletedEvent
           (createBaseEvent p now ''resource.deleted'' correlationID None [inferAPI resource apis])
           actor resource softDelete redactedData)"

definition EmitResourceDeleted ::
  "Producer \<Rightarrow> JSONLib \<Rightarrow> instant \<Rightarrow> Context \<Rightarrow> string \<Rightarrow> Actor option \<Rightarrow> Resource option \<Rightarrow> bool
   \<Rightarrow> gomap \<Rightarrow> (string \<rightharpoonup> FieldAnnotations) \<Rightarrow> string list \<Rightarrow> error option \<times> action list" where
  "EmitResourceDeleted p lib now ctx correlationID actor resource softDelete finalData schemaAnnotations apis =
     emitEvent p lib ctx
       (ResourceDeleted_event p now correlationID actor resource softDelete finalData schemaAnnotations apis) 0"

text \<open>
  The payload of a resource event as serialization sees it: \<open>redactData\<close> in the
  emitter, then \<open>RedactPII\<close> (that is, \<open>RedactMap\<close> on a payload that is not nil) in
  \<open>emitEvent\<close>.
\<close>

definition emitted_payload :: "Producer \<Rightarrow> gomap \<Rightarrow> (string \<rightharpoonup> FieldAnnotations) \<Rightarrow> gomap" where
  "emitted_payload p data schemaAnnotations =
     (let redactedData = redactData p data schemaAnnotations
      in if redactedData \<noteq> None then RedactMap (redactor p) redactedData (piiDetector p)
         else redactedData)"

section \<open>Notions used in the statements\<close>

text \<open>
  The event that \<open>emitEvent\<close> works on after its first statement: the event itself, or
  for an \<open>EventWithData\<close> what \<open>RedactPII\<close> made of it.
\<close>

definition redacted_event :: "Producer \<Rightarrow> event \<Rightarrow> event" where
  "redacted_event p e = (if IsEventWithData e then RedactPII e (piiDetector p) (redactor p) else e)"

text \<open>
  The registry after a list of registration calls on a new registry, and the color of
  the last call among them that registered a status.
\<close>

definition registered :: "registration list \<Rightarrow> ColorRegistry" where
  "registered regs = fold (\<lambda>g r. register r g) regs NewColorRegistry"

fun last_status_override :: "registration list \<Rightarrow> string \<Rightarrow> string option" where
  "last_status_override [] status = None"
| "last_status_override (g # regs) status =
     (case last_status_override regs status of
        Some c \<Rightarrow> Some c
      | None \<Rightarrow> (case g of RegStatus k c \<Rightarrow> if k = status then Some c else None | _ \<Rightarrow> None))"

text \<open>Concrete inputs: the producers and values of the README and of example/main.go.\<close>

definition producer0 :: Producer where
  "producer0 = NewProducer ''user-service'' ''pod-123'' []"

definition producer_user_api :: Producer where
  "producer_user_api = NewProducer ''example-service'' ''pod-123'' [WithAPI ''examples.User'']"

definition styled0 :: StyledOutput where
  "styled0 = \<lparr> jsonOutput = None, jsonOnly = False, styledColorRegistry = Some NewColorRegistry \<rparr>"

definition file_writer :: Writer where
  "file_writer = \<lparr> wid = 3, failing = False \<rparr>"

definition styled_with_json :: StyledOutput where
  "styled_with_json = \<lparr> jsonOutput = Some file_writer, jsonOnly = False,
     styledColorRegistry = Some NewColorRegistry \<rparr>"

definition producer_styled :: Producer where
  "producer_styled = NewProducer ''user-service'' ''pod-123'' [WithStyledOutput styled_with_json]"

definition order_resource :: Resource where
  "order_resource = \<lparr> Type = ''Order'', ID = ''order-1'' \<rparr>"

definition pii_only :: FieldAnnotations where
  "pii_only = \<lparr> PII = True, Encrypted = False, Redactable = False, Sensitive = False \<rparr>"

definition ctx_with_id :: Context where
  "ctx_with_id = [''correlation_id'' \<mapsto> VString ''corr-123'']"

definition ctx_with_number :: Context where
  "ctx_with_number = [''correlation_id'' \<mapsto> VInt 7]"

definition lib0 :: JSONLib where
  "lib0 = \<lparr> jsonOther = (\<lambda>n. None), timeText = (\<lambda>t. ''2025-01-25T10:00:00Z''),
     encode = (\<lambda>j. ''{}'') \<rparr>"

definition created_event0 :: event where
  "created_event0 = ResourceCreated_event producer0 0 ''corr-123'' None (Some order_resource)
     (Some [(''email'', VString ''john.doe@example.com''), (''plan'', VString ''free'')]) Map.empty []"

text \<open>
  Places in a payload. A path leads from a value to a value inside it: \<open>Entry i\<close> goes
  to the value of the \<open>i\<close>-th entry of a map, \<open>Elem j\<close> to the \<open>j\<close>-th element of a
  slice. \<open>slice_in_slice\<close> holds of a path that goes from a slice straight to one of its
  elements and on into that element as a slice; the loops of \<open>redactData\<close> and
  \<open>RedactSlice\<close> over a slice look at elements that are maps or scalars and never go
  that way. \<open>replaced_on m v ps\<close>: walking from \<open>v\<close> along \<open>ps\<close>, the value at the end, or
  a value passed on the way, is the marker \<open>m\<close>.
\<close>

datatype step = Entry nat | Elem nat

fun value_at :: "val \<Rightarrow> step list \<Rightarrow> val option" where
  "value_at v [] = Some v"
| "value_at (VMap (Some es)) (Entry i # ps) = (if i < length es then value_at (snd (es ! i)) ps else None)"
| "value_at (VSlice (Some xs)) (Elem j # ps) = (if j < length xs then value_at (xs ! j) ps else None)"
| "value_at _ _ = None"

fun slice_in_slice :: "step list \<Rightarrow> bool" where
  "slice_in_slice (Elem i # Elem j # ps) = True"
| "slice_in_slice (s # ps) = slice_in_slice ps"
| "slice_in_slice [] = False"

fun replaced_on :: "string \<Rightarrow> val \<Rightarrow> step list \<Rightarrow> bool" where
  "replaced_on m v [] = (v = VString m)"
| "replaced_on m v (Entry i # ps) =
     (v = VString m \<or>
      (case v of VMap (Some es) \<Rightarrow> i < length es \<and> replaced_on m (snd (es ! i)) ps | _ \<Rightarrow> False))"
| "replaced_on m v (Elem j # ps) =
     (v = VString m \<or>
      (case v of VSlice (Some xs) \<Rightarrow> j < length xs \<and> replaced_on m (xs ! j) ps | _ \<Rightarrow> False))"

text \<open>
  \<open>selected p schemaAnnotations key v\<close> is the condition \<open>shouldRedact\<close> that \<open>redactData\<close>
  computes for the entry \<open>key\<close>, \<open>v\<close>. \<open>entered p schemaAnnotations v ps\<close>: walking from
  \<open>v\<close> along \<open>ps\<close>, \<open>redactData\<close> selects none of the entries that it passes, so that its
  recursion arrives at the end of the path.
\<close>

definition selected :: "Producer \<Rightarrow> (string \<rightharpoonup> FieldAnnotations) \<Rightarrow> string \<Rightarrow> val \<Rightarrow> bool" where
  "selected p schemaAnnotations key v =
     ((case schemaAnnotations key of
         Some annotations \<Rightarrow>
           PII annotations \<or> Redactable annotations \<or> Encrypted annotations \<or> Sensitive annotations
       | None \<Rightarrow> False)
      \<or> IsPIIField (piiDetector p) key \<or> IsPIIValue (piiDetector p) v)"

fun entered :: "Producer \<Rightarrow> (string \<rightharpoonup> FieldAnnotations) \<Rightarrow> val \<Rightarrow> step list \<Rightarrow> bool" where
  "entered p schemaAnnotations v [] = True"
| "entered p schemaAnnotations (VMap (Some es)) (Entry i # ps) =
     (i < length es \<and> \<not> selected p schemaAnnotations (fst (es ! i)) (snd (es ! i))
      \<and> entered p schemaAnnotations (snd (es ! i)) ps)"
| "entered p schemaAnnotations (VSlice (Some xs)) (Elem j # ps) =
     (j < length xs \<and> entered p schemaAnnotations (xs ! j) ps)"
| "entered p schemaAnnotations v ps = False"

text \<open>
  Payloads with nested fields: a list of rows, each row a list of records, and a
  record with a map and a list of maps. \<open>flat_payload\<close> has the two fields of the
  examples at the top level.
\<close>

definition nested_rows :: "(string \<times> val) list" where
  "nested_rows = [(''rows'', VSlice (Some [VSlice (Some [VMap (Some [(''email'', VString ''a@b.com'')])])]))]"

definition nested_payload :: "(string \<times> val) list" where
  "nested_payload =
     [(''user'', VMap (Some [(''email'', VString ''not-an-email'')])),
      (''orders'', VSlice (Some [VMap (Some [(''count'', VString ''user@example.com'')])]))]"

definition flat_payload :: "(string \<times> val) list" where
  "flat_payload = [(''email'', VString ''not-an-email''), (''count'', VString ''user@example.com'')]"

section \<open>Facts about the detector and the redactor\<close>

declare RedactMapValue.simps [simp del] RedactSliceValue.simps [simp del]
  redactDataValue.simps [simp del] redactDataItem.simps [simp del]

lemma IsPIIValue_not_string [simp]:
  "\<not> IsPIIValue d VNil" "\<not> IsPIIValue d (VInt i)" "\<not> IsPIIValue d (VBool b)"
  "\<not> IsPIIValue d (VOther n)" "\<not> IsPIIValue d (VMap m)" "\<not> IsPIIValue d (VSlice xs)"
  by (simp_all add: IsPIIValue_def)

lemma Redact_eq:
  "Redact r v = (if IsPIIValue NewPIIDetector v then VString (redactionString r) else v)"
  by (cases v) (simp_all add: Redact_def)

lemma RedactMapEntries_map:
  "RedactMapEntries r d es = map (\<lambda>(key, v). (key, RedactMapValue r d key v)) es"
  by (induction es) auto

lemma RedactMapEntries_keys: "map fst (RedactMapEntries r d es) = map fst es"
  by (induction es) auto

lemma RedactSliceElems_map: "RedactSliceElems r d xs = map (RedactSliceValue r d) xs"
  by (induction xs) auto

lemma redactDataEntries_map:
  "redactDataEntries p ann es = map (\<lambda>(key, v). (key, redactDataValue p ann key v)) es"
  by (induction es) auto

lemma producer0_fields:
  "piiDetector producer0 = NewPIIDetector" "redactor producer0 = NewRedactor"
  "api producer0 = []" "styled producer0 = None" "output_writer producer0 = stdout"
  "otel producer0 = Some OTelIntegration" "service producer0 = ''user-service''"
  "host producer0 = ''pod-123''"
  by (simp_all add: producer0_def NewProducer_def)

text \<open>The detector on the strings of the examples.\<close>

lemma id_not_pii_field: "\<not> IsPIIField NewPIIDetector ''id''"
  by code_simp

lemma user789_not_pii_value: "\<not> IsPIIValue NewPIIDetector (VString ''user-789'')"
  by code_simp

lemma email_is_pii_field: "IsPIIField NewPIIDetector ''email''"
  by code_simp

lemma email_value_is_pii: "IsPIIValue NewPIIDetector (VString ''user@example.com'')"
  by code_simp

lemma count_not_pii_field: "\<not> IsPIIField NewPIIDetector ''count''"
  by code_simp

lemma not_an_email_not_pii: "\<not> IsPIIValue NewPIIDetector (VString ''not-an-email'')"
  by code_simp

lemma forty_two_is_pii_value: "IsPIIValue NewPIIDetector (VString ''42'')"
  by code_simp

lemma rows_not_pii_field: "\<not> IsPIIField NewPIIDetector ''rows''"
  by code_simp

lemma user_not_pii_field: "\<not> IsPIIField NewPIIDetector ''user''"
  by code_simp

lemma orders_not_pii_field: "\<not> IsPIIField NewPIIDetector ''orders''"
  by code_simp

lemma a_b_com_is_pii_value: "IsPIIValue NewPIIDetector (VString ''a@b.com'')"
  by code_simp

section \<open>Redaction with sensitivity metadata\<close>

text \<open>
  What \<open>redactData\<close> does with a field whose metadata has a flag set: it hands the
  value to \<open>Redact\<close>, which replaces it only when it is a string that the default value
  patterns match.
\<close>

lemma redactDataValue_annotated:
  "schemaAnnotations key = Some a \<Longrightarrow> ShouldRedact a \<Longrightarrow>
   redactDataValue p schemaAnnotations key v = Redact (redactor p) v"
  by (auto simp: ShouldRedact_def redactDataValue.simps Let_def)

text \<open>
  Claim C1 says that a field whose sensitivity metadata has one of the flags pii,
  encrypted, redactable or sensitive set always comes out of \<open>redactData\<close> as the
  redaction marker, whatever its value. The code does not do this: for the payload
  \<open>{"id": "user-789"}\<close> with metadata \<open>{"id": {PII: true}}\<close>, \<open>redactData\<close> returns the
  payload unchanged, and so does the later pass of \<open>RedactPII\<close> in \<open>emitEvent\<close>. (The
  value \<open>"42"\<close> of the claim's example is replaced, because the phone pattern matches it.)
\<close>

theorem annotated_field_passes_unredacted:
  "redactData producer0 (Some [(''id'', VString ''user-789'')]) [''id'' \<mapsto> pii_only]
     = Some [(''id'', VString ''user-789'')]
   \<and> emitted_payload producer0 (Some [(''id'', VString ''user-789'')]) [''id'' \<mapsto> pii_only]
     = Some [(''id'', VString ''user-789'')]
   \<and> redactData producer0 (Some [(''id'', VString ''42'')]) [''id'' \<mapsto> pii_only]
     = Some [(''id'', VString ''[REDACTED]'')]"
  by (simp add: redactData_def emitted_payload_def RedactMap_def Redact_def producer0_fields
        pii_only_def id_not_pii_field user789_not_pii_value forty_two_is_pii_value NewRedactor_def
        redactDataValue.simps Let_def RedactMapValue.simps)

section \<open>Heuristic fallback\<close>

lemma emitted_payload_Some:
  "emitted_payload p (Some es) ann =
     Some (map (\<lambda>(key, v). (key, RedactMapValue (redactor p) (piiDetector p) key (redactDataValue p ann key v))) es)"
  by (simp add: emitted_payload_def redactData_def RedactMap_def redactDataEntries_map
        RedactMapEntries_map case_prod_unfold comp_def)

text \<open>
  A field that the detector of the producer matches by name or by value leaves the two
  passes (\<open>redactData\<close>, then \<open>RedactMap\<close>) as the marker, whatever its metadata.
\<close>

lemma pipeline_value:
  assumes "IsPIIField (piiDetector p) key \<or> IsPIIValue (piiDetector p) v"
  shows "RedactMapValue (redactor p) (piiDetector p) key (redactDataValue p ann key v)
           = VString (redactionString (redactor p))"
proof (cases "IsPIIField (piiDetector p) key")
  case True
  then show ?thesis by (simp add: RedactMapValue.simps)
next
  case False
  with assms have pv: "IsPIIValue (piiDetector p) v" by simp
  then have "redactDataValue p ann key v = Redact (redactor p) v"
    by (simp add: redactDataValue.simps Let_def)
  then show ?thesis using pv False by (auto simp: Redact_eq RedactMapValue.simps)
qed

text \<open>
  \<open>redactData\<close> on its own leaves a field that only its name gives away to the later
  pass: \<open>Redact\<close> looks at the value again.
\<close>

lemma redactData_alone_keeps_name_match:
  "redactData producer0 (Some [(''email'', VString ''not-an-email'')]) Map.empty
     = Some [(''email'', VString ''not-an-email'')]"
  by (simp add: redactData_def Redact_def producer0_fields email_is_pii_field not_an_email_not_pii
        redactDataValue.simps Let_def)

text \<open>
  Fields below the top level. Both passes go into a map held by a field and into the
  maps that are elements of a slice held by a field; the lemmas follow a path of that
  kind through \<open>RedactMap\<close> and through \<open>redactData\<close>.
\<close>

lemma replaced_on_marker [simp]: "replaced_on m (VString m) ps"
proof (cases ps)
  case Nil
  then show ?thesis by simp
next
  case (Cons s qs)
  then show ?thesis by (cases s) simp_all
qed

lemma value_at_Entry:
  "value_at v (Entry j # qs) = Some w \<Longrightarrow>
   \<exists>es. v = VMap (Some es) \<and> j < length es \<and> value_at (snd (es ! j)) qs = Some w"
  by (erule value_at.elims) (auto split: if_splits)

lemma value_at_Elem:
  "value_at v (Elem j # qs) = Some w \<Longrightarrow>
   \<exists>xs. v = VSlice (Some xs) \<and> j < length xs \<and> value_at (xs ! j) qs = Some w"
  by (erule value_at.elims) (auto split: if_splits)

lemma value_at_map:
  assumes "value_at v qs = Some (VMap (Some es))" and "\<forall>l qs2. qs \<noteq> Elem l # qs2"
  shows "\<exists>es1. v = VMap (Some es1)"
proof (cases qs)
  case Nil
  with assms show ?thesis by simp
next
  case (Cons s qs2)
  with assms(2) obtain j where "s = Entry j" by (cases s) auto
  with assms(1) Cons show ?thesis by (auto dest: value_at_Entry)
qed

lemma not_slice_in_slice_tail: "\<not> slice_in_slice (s # qs) \<Longrightarrow> \<not> slice_in_slice qs"
  by (cases "s # qs" rule: slice_in_slice.cases) auto

lemma not_slice_in_slice_Elem:
  "\<not> slice_in_slice (Elem l # qs) \<Longrightarrow> \<forall>j qs2. qs \<noteq> Elem j # qs2"
  by auto

lemma RedactSliceElems_nth:
  "l < length xs \<Longrightarrow> RedactSliceElems r d xs ! l = RedactSliceValue r d (xs ! l)"
  by (simp add: RedactSliceElems_map)

lemma RedactMapEntries_nth:
  "j < length es \<Longrightarrow> RedactMapEntries r d es ! j = (fst (es ! j), RedactMapValue r d (fst (es ! j)) (snd (es ! j)))"
  by (simp add: RedactMapEntries_map case_prod_unfold)

lemma redact_path:
  assumes "i < length es" and "es ! i = (key, v)"
    and "RedactMapValue r d key v = VString (redactionString r)"
  shows "value_at (VMap (Some es0)) ps = Some (VMap (Some es)) \<Longrightarrow> \<not> slice_in_slice ps \<Longrightarrow>
         replaced_on (redactionString r) (VMap (Some (RedactMapEntries r d es0))) (ps @ [Entry i])"
proof (induction ps arbitrary: es0 rule: length_induct)
  case (1 ps)
  let ?m = "redactionString r"
  show ?case
  proof (cases ps)
    case Nil
    with "1.prems" have "es0 = es" by simp
    with Nil assms show ?thesis by (simp add: RedactMapEntries_nth RedactMapEntries_map)
  next
    case (Cons s qs)
    with "1.prems"(1) obtain j where s: "s = Entry j"
      by (cases s) auto
    with "1.prems"(1) Cons have j: "j < length es0"
      and va: "value_at (snd (es0 ! j)) qs = Some (VMap (Some es))"
      by (auto split: if_splits)
    from "1.prems"(2) Cons have nq: "\<not> slice_in_slice qs"
      by (auto dest: not_slice_in_slice_tail)
    obtain kj vj where e: "es0 ! j = (kj, vj)" by (cases "es0 ! j")
    have "replaced_on ?m (RedactMapValue r d kj vj) (qs @ [Entry i])"
    proof (cases "IsPIIField d kj")
      case True
      then show ?thesis by (simp add: RedactMapValue.simps)
    next
      case False
      show ?thesis
      proof (cases "\<exists>l qs2. qs = Elem l # qs2")
        case True
        then obtain l qs2 where q: "qs = Elem l # qs2" by blast
        with va e obtain xs where x: "vj = VSlice (Some xs)" "l < length xs"
          and vx: "value_at (xs ! l) qs2 = Some (VMap (Some es))"
          by (auto dest: value_at_Elem)
        from "1.prems"(2) Cons s q have ne: "\<forall>j qs3. qs2 \<noteq> Elem j # qs3" by auto
        from nq q have nq2: "\<not> slice_in_slice qs2" by (auto dest: not_slice_in_slice_tail)
        from value_at_map [OF vx ne] obtain es3 where e3: "xs ! l = VMap (Some es3)" by blast
        have "length qs2 < length ps" using Cons q by simp
        with "1.IH" vx e3 nq2
        have "replaced_on ?m (VMap (Some (RedactMapEntries r d es3))) (qs2 @ [Entry i])"
          by auto
        with x e3 False q show ?thesis
          by (simp add: RedactMapValue.simps RedactSliceValue.simps RedactSliceElems_nth
                RedactSliceElems_map)
      next
        case False2: False
        then have "\<forall>l qs2. qs \<noteq> Elem l # qs2" by blast
        from value_at_map [OF va [unfolded e snd_conv] this] obtain es1 where e1: "vj = VMap (Some es1)"
          by blast
        have "length qs < length ps" using Cons by simp
        with "1.IH" va e e1 nq
        have "replaced_on ?m (VMap (Some (RedactMapEntries r d es1))) (qs @ [Entry i])"
          by auto
        with e1 False show ?thesis by (simp add: RedactMapValue.simps)
      qed
    qed
    with j e s Cons show ?thesis by (simp add: RedactMapEntries_nth RedactMapEntries_map)
  qed
qed


lemma redactDataItems_map: "redactDataItems p ann xs = map (redactDataItem p ann) xs"
  by (induction xs) auto

lemma redactDataEntries_nth:
  "j < length es \<Longrightarrow>
   redactDataEntries p ann es ! j = (fst (es ! j), redactDataValue p ann (fst (es ! j)) (snd (es ! j)))"
  by (simp add: redactDataEntries_map case_prod_unfold)

lemma redactDataValue_cases:
  "redactDataValue p ann k v = Redact (redactor p) v
   \<or> redactDataValue p ann k v =
       (case v of
          VMap None \<Rightarrow> VMap None
        | VMap (Some es) \<Rightarrow> VMap (Some (redactDataEntries p ann es))
        | VSlice None \<Rightarrow> VSlice (Some [])
        | VSlice (Some xs) \<Rightarrow> VSlice (Some (redactDataItems p ann xs))
        | _ \<Rightarrow> v)"
  by (simp add: redactDataValue.simps Let_def)

lemma redactData_path:
  assumes "i < length es" and "es ! i = (key, v)"
  shows "value_at (VMap (Some es0)) ps = Some (VMap (Some es)) \<Longrightarrow> \<not> slice_in_slice ps \<Longrightarrow>
         \<exists>es'. value_at (VMap (Some (redactDataEntries p ann es0))) ps = Some (VMap (Some es'))
           \<and> i < length es'
           \<and> (es' ! i = (key, v) \<or> es' ! i = (key, redactDataValue p ann key v))"
proof (induction ps arbitrary: es0 rule: length_induct)
  case (1 ps)
  let ?goal = "\<lambda>w qs. \<exists>es'. value_at w qs = Some (VMap (Some es')) \<and> i < length es'
           \<and> (es' ! i = (key, v) \<or> es' ! i = (key, redactDataValue p ann key v))"
  show ?case
  proof (cases ps)
    case Nil
    with "1.prems" have "es0 = es" by simp
    with Nil assms show ?thesis by (simp add: redactDataEntries_nth redactDataEntries_map)
  next
    case (Cons s qs)
    with "1.prems"(1) obtain j where s: "s = Entry j"
      by (cases s) auto
    with "1.prems"(1) Cons have j: "j < length es0"
      and va: "value_at (snd (es0 ! j)) qs = Some (VMap (Some es))"
      by (auto split: if_splits)
    from "1.prems"(2) Cons have nq: "\<not> slice_in_slice qs"
      by (auto dest: not_slice_in_slice_tail)
    obtain kj vj where e: "es0 ! j = (kj, vj)" by (cases "es0 ! j")
    from va e have vaj: "value_at vj qs = Some (VMap (Some es))" by simp
    have "?goal (redactDataValue p ann kj vj) qs"
    proof (cases "\<exists>l qs2. qs = Elem l # qs2")
      case True
      then obtain l qs2 where q: "qs = Elem l # qs2" by blast
      with vaj obtain xs where x: "vj = VSlice (Some xs)" "l < length xs"
        and vx: "value_at (xs ! l) qs2 = Some (VMap (Some es))"
        by (auto dest: value_at_Elem)
      from "1.prems"(2) Cons s q have ne: "\<forall>j qs3. qs2 \<noteq> Elem j # qs3" by auto
      from nq q have nq2: "\<not> slice_in_slice qs2" by (auto dest: not_slice_in_slice_tail)
      from value_at_map [OF vx ne] obtain es3 where e3: "xs ! l = VMap (Some es3)" by blast
      have "length qs2 < length ps" using Cons q by simp
      with "1.IH" vx e3 nq2
      have ih: "?goal (VMap (Some (redactDataEntries p ann es3))) qs2"
        by auto
      from redactDataValue_cases [of p ann kj vj] show ?thesis
      proof
        assume "redactDataValue p ann kj vj = Redact (redactor p) vj"
        with x have "redactDataValue p ann kj vj = vj" by (simp add: Redact_eq)
        with vaj assms show ?thesis by auto
      next
        assume "redactDataValue p ann kj vj =
          (case vj of VMap None \<Rightarrow> VMap None
           | VMap (Some es) \<Rightarrow> VMap (Some (redactDataEntries p ann es))
           | VSlice None \<Rightarrow> VSlice (Some [])
           | VSlice (Some xs) \<Rightarrow> VSlice (Some (redactDataItems p ann xs))
           | _ \<Rightarrow> vj)"
        with x e3 q ih show ?thesis
          by (simp add: redactDataItems_map redactDataItem.simps)
      qed
    next
      case False
      then have "\<forall>l qs2. qs \<noteq> Elem l # qs2" by blast
      from value_at_map [OF vaj this] obtain es1 where e1: "vj = VMap (Some es1)"
        by blast
      have "length qs < length ps" using Cons by simp
      with "1.IH" vaj e1 nq
      have ih: "?goal (VMap (Some (redactDataEntries p ann es1))) qs"
        by auto
      from redactDataValue_cases [of p ann kj vj] show ?thesis
      proof
        assume "redactDataValue p ann kj vj = Redact (redactor p) vj"
        with e1 have "redactDataValue p ann kj vj = vj" by (simp add: Redact_eq)
        with vaj assms show ?thesis by auto
      next
        assume "redactDataValue p ann kj vj =
          (case vj of VMap None \<Rightarrow> VMap None
           | VMap (Some es) \<Rightarrow> VMap (Some (redactDataEntries p ann es))
           | VSlice None \<Rightarrow> VSlice (Some [])
           | VSlice (Some xs) \<Rightarrow> VSlice (Some (redactDataItems p ann xs))
           | _ \<Rightarrow> vj)"
        with e1 ih show ?thesis by simp
      qed
    qed
    with j e s Cons show ?thesis by (simp add: redactDataEntries_nth redactDataEntries_map)
  qed
qed

lemma matched_RedactMapValue:
  "IsPIIField d key \<or> IsPIIValue d v \<Longrightarrow> RedactMapValue r d key v = VString (redactionString r)"
  by (auto simp: RedactMapValue.simps)

lemma redactDataValue_value_match:
  "IsPIIValue (piiDetector p) v \<Longrightarrow> IsPIIValue NewPIIDetector v \<Longrightarrow>
   redactDataValue p ann key v = VString (redactionString (redactor p))"
  by (simp add: redactDataValue.simps Let_def Redact_eq)


lemma value_at_append:
  "value_at v (ps @ qs) = (case value_at v ps of None \<Rightarrow> None | Some w \<Rightarrow> value_at w qs)"
  by (induction v ps rule: value_at.induct) simp_all

lemma redactDataValue_selected:
  "redactDataValue p ann key v =
     (if selected p ann key v then Redact (redactor p) v
      else case v of
             VMap None \<Rightarrow> VMap None
           | VMap (Some es) \<Rightarrow> VMap (Some (redactDataEntries p ann es))
           | VSlice None \<Rightarrow> VSlice (Some [])
           | VSlice (Some xs) \<Rightarrow> VSlice (Some (redactDataItems p ann xs))
           | _ \<Rightarrow> v)"
  by (simp add: redactDataValue.simps Let_def selected_def split: option.splits)

lemma Redact_if:
  "Redact r v = (if IsPIIValue NewPIIDetector v then VString (redactionString r) else v)"
  by (cases v) (simp_all add: Redact_def)

lemma redactData_enters:
  "value_at (VMap (Some es0)) ps = Some (VMap (Some es)) \<Longrightarrow> \<not> slice_in_slice ps \<Longrightarrow>
   entered p ann (VMap (Some es0)) ps \<Longrightarrow>
   value_at (VMap (Some (redactDataEntries p ann es0))) ps = Some (VMap (Some (redactDataEntries p ann es)))"
proof (induction ps arbitrary: es0 rule: length_induct)
  case (1 ps)
  show ?case
  proof (cases ps)
    case Nil
    with "1.prems" show ?thesis by simp
  next
    case (Cons s qs)
    with "1.prems"(1) obtain j where s: "s = Entry j"
      by (cases s) auto
    with "1.prems"(1) Cons have j: "j < length es0"
      and va: "value_at (snd (es0 ! j)) qs = Some (VMap (Some es))"
      by (auto split: if_splits)
    from "1.prems"(2) Cons have nq: "\<not> slice_in_slice qs"
      by (auto dest: not_slice_in_slice_tail)
    obtain kj vj where e: "es0 ! j = (kj, vj)" by (cases "es0 ! j")
    from va e have vaj: "value_at vj qs = Some (VMap (Some es))" by simp
    from "1.prems"(3) Cons s e have ns: "\<not> selected p ann kj vj" and en: "entered p ann vj qs"
      by auto
    have "value_at (redactDataValue p ann kj vj) qs = Some (VMap (Some (redactDataEntries p ann es)))"
    proof (cases "\<exists>l qs2. qs = Elem l # qs2")
      case True
      then obtain l qs2 where q: "qs = Elem l # qs2" by blast
      with vaj obtain xs where x: "vj = VSlice (Some xs)" "l < length xs"
        and vx: "value_at (xs ! l) qs2 = Some (VMap (Some es))"
        by (auto dest: value_at_Elem)
      from "1.prems"(2) Cons s q have ne: "\<forall>j qs3. qs2 \<noteq> Elem j # qs3" by auto
      from nq q have nq2: "\<not> slice_in_slice qs2" by (auto dest: not_slice_in_slice_tail)
      from value_at_map [OF vx ne] obtain es3 where e3: "xs ! l = VMap (Some es3)" by blast
      from en q x e3 have en3: "entered p ann (VMap (Some es3)) qs2" by simp
      have "length qs2 < length ps" using Cons q by simp
      with "1.IH" vx e3 nq2 en3
      have "value_at (VMap (Some (redactDataEntries p ann es3))) qs2
              = Some (VMap (Some (redactDataEntries p ann es)))"
        by auto
      with ns x e3 q show ?thesis
        by (simp add: redactDataValue_selected redactDataItems_map redactDataItem.simps)
    next
      case False
      then have "\<forall>l qs2. qs \<noteq> Elem l # qs2" by blast
      from value_at_map [OF vaj this] obtain es1 where e1: "vj = VMap (Some es1)"
        by blast
      have "length qs < length ps" using Cons by simp
      with "1.IH" vaj e1 nq en
      have "value_at (VMap (Some (redactDataEntries p ann es1))) qs
              = Some (VMap (Some (redactDataEntries p ann es)))"
        by auto
      with ns e1 show ?thesis by (simp add: redactDataValue_selected)
    qed
    with j e s Cons show ?thesis by (simp add: redactDataEntries_nth redactDataEntries_map)
  qed
qed

text \<open>
  Claim C2 says that every payload field with no metadata entry that a detector matches
  is replaced by the marker. As stated this fails for a field below a slice that is
  itself an element of a slice: the loop of \<open>redactData\<close> over a slice and \<open>RedactSlice\<close>
  keep an element that is a slice as it is. In the payload \<open>rows: [[{email: a@b.com}]]\<close>
  the field \<open>email\<close> matches by name and by value, and \<open>redactData\<close>, \<open>RedactMap\<close> and
  the two in sequence return the payload unchanged.
\<close>

theorem heuristic_fallback_slice_in_slice_counterexample:
  "value_at (VMap (Some nested_rows)) [Entry 0, Elem 0, Elem 0]
     = Some (VMap (Some [(''email'', VString ''a@b.com'')]))
   \<and> IsPIIField (piiDetector producer0) ''email''
   \<and> IsPIIValue (piiDetector producer0) (VString ''a@b.com'')
   \<and> redactData producer0 (Some nested_rows) Map.empty = Some nested_rows
   \<and> RedactMap (redactor producer0) (Some nested_rows) (piiDetector producer0) = Some nested_rows
   \<and> emitted_payload producer0 (Some nested_rows) Map.empty = Some nested_rows
   \<and> \<not> replaced_on (redactionString (redactor producer0)) (VMap (Some nested_rows))
         [Entry 0, Elem 0, Elem 0, Entry 0]"
  by (simp add: nested_rows_def producer0_fields NewRedactor_def emitted_payload_def
        redactData_def RedactMap_def redactDataValue.simps redactDataItem.simps
        RedactMapValue.simps RedactSliceValue.simps Let_def
        rows_not_pii_field email_is_pii_field a_b_com_is_pii_value)

text \<open>
  Claim C2, amended: take a payload field with no entry in the sensitivity metadata
  that lies in the payload map, in a map nested in a field, or in a map that is an
  element of a slice held by a field, on a path that never goes from a slice into an
  element that is a slice. If its name matches the field-name detector or its value
  matches the value detector, then in the payload that an emission serializes
  (\<open>redactData\<close> followed by the \<open>RedactMap\<close> of \<open>RedactPII\<close>), and in the result of
  \<open>RedactMap\<close> by itself, the marker stands in the place of the field's value or of a
  field that encloses it. For a field of the payload map itself the entry keeps its
  key and position and its value is the marker. \<open>redactData\<close> by itself, on a path
  where it selects no enclosing field, puts the marker there when the value matches
  the default value detector and leaves the value as it is otherwise; a field that
  only its name gives away gets the marker from the \<open>RedactMap\<close> pass.
\<close>

theorem heuristic_fallback:
  assumes "value_at (VMap (Some payload)) ps = Some (VMap (Some es))" and "\<not> slice_in_slice ps"
    and "i < length es" and "es ! i = (key, v)" and "schemaAnnotations key = None"
    and "IsPIIField (piiDetector p) key \<or> IsPIIValue (piiDetector p) v"
  shows "(\<exists>out. emitted_payload p (Some payload) schemaAnnotations = Some out
            \<and> replaced_on (redactionString (redactor p)) (VMap (Some out)) (ps @ [Entry i]))
       \<and> (\<exists>out. RedactMap (redactor p) (Some payload) (piiDetector p) = Some out
            \<and> replaced_on (redactionString (redactor p)) (VMap (Some out)) (ps @ [Entry i]))
       \<and> (ps = [] \<longrightarrow>
            (\<exists>out. emitted_payload p (Some payload) schemaAnnotations = Some out
               \<and> length out = length payload
               \<and> out ! i = (key, VString (redactionString (redactor p))))
          \<and> (\<exists>out. RedactMap (redactor p) (Some payload) (piiDetector p) = Some out
               \<and> length out = length payload
               \<and> out ! i = (key, VString (redactionString (redactor p))))
          \<and> (\<exists>out. redactData p (Some payload) schemaAnnotations = Some out
               \<and> length out = length payload
               \<and> out ! i = (key, if IsPIIValue NewPIIDetector v
                                  then VString (redactionString (redactor p)) else v)))
       \<and> (entered p schemaAnnotations (VMap (Some payload)) ps \<longrightarrow>
            (\<exists>out. redactData p (Some payload) schemaAnnotations = Some out
               \<and> value_at (VMap (Some out)) (ps @ [Entry i])
                   = Some (if IsPIIValue NewPIIDetector v
                           then VString (redactionString (redactor p)) else v)))"
proof -
  let ?r = "redactor p" and ?d = "piiDetector p"
  let ?m = "redactionString ?r"
  have direct: "RedactMapValue ?r ?d key v = VString ?m"
    using assms(6) by (rule matched_RedactMapValue)
  have piped: "RedactMapValue ?r ?d key (redactDataValue p schemaAnnotations key v) = VString ?m"
    using assms(6) by (rule pipeline_value)
  have sel: "selected p schemaAnnotations key v"
    using assms(6) by (auto simp: selected_def)
  have alone: "redactDataValue p schemaAnnotations key v
                 = (if IsPIIValue NewPIIDetector v then VString ?m else v)"
    using sel by (simp add: redactDataValue_selected Redact_if)
  from redactData_path [OF assms(3,4,1,2), of p schemaAnnotations]
  obtain es' where mid: "value_at (VMap (Some (redactDataEntries p schemaAnnotations payload))) ps
        = Some (VMap (Some es'))"
    and i': "i < length es'"
    and e': "es' ! i = (key, v) \<or> es' ! i = (key, redactDataValue p schemaAnnotations key v)"
    by blast
  from e' direct piped obtain v' where ev: "es' ! i = (key, v')"
    and rv: "RedactMapValue ?r ?d key v' = VString ?m"
    by auto
  have 1: "\<exists>out. emitted_payload p (Some payload) schemaAnnotations = Some out
            \<and> replaced_on ?m (VMap (Some out)) (ps @ [Entry i])"
    using redact_path [OF i' ev rv mid assms(2)]
    by (simp add: emitted_payload_def redactData_def RedactMap_def)
  have 2: "\<exists>out. RedactMap ?r (Some payload) ?d = Some out
            \<and> replaced_on ?m (VMap (Some out)) (ps @ [Entry i])"
    using redact_path [OF assms(3,4) direct assms(1,2)]
    by (simp add: RedactMap_def)
  have 3: "ps = [] \<longrightarrow>
            (\<exists>out. emitted_payload p (Some payload) schemaAnnotations = Some out
               \<and> length out = length payload \<and> out ! i = (key, VString ?m))
          \<and> (\<exists>out. RedactMap ?r (Some payload) ?d = Some out
               \<and> length out = length payload \<and> out ! i = (key, VString ?m))
          \<and> (\<exists>out. redactData p (Some payload) schemaAnnotations = Some out
               \<and> length out = length payload
               \<and> out ! i = (key, if IsPIIValue NewPIIDetector v then VString ?m else v))"
    using assms(1,3,4) direct piped alone
    by (auto simp: emitted_payload_Some RedactMap_def RedactMapEntries_map
          redactData_def redactDataEntries_map)
  have 4: "entered p schemaAnnotations (VMap (Some payload)) ps \<longrightarrow>
            (\<exists>out. redactData p (Some payload) schemaAnnotations = Some out
               \<and> value_at (VMap (Some out)) (ps @ [Entry i])
                   = Some (if IsPIIValue NewPIIDetector v then VString ?m else v))"
  proof
    assume "entered p schemaAnnotations (VMap (Some payload)) ps"
    from redactData_enters [OF assms(1,2) this]
    have "value_at (VMap (Some (redactDataEntries p schemaAnnotations payload))) (ps @ [Entry i])
            = Some (snd (redactDataEntries p schemaAnnotations es ! i))"
      using assms(3) by (simp add: value_at_append redactDataEntries_map)
    also have "snd (redactDataEntries p schemaAnnotations es ! i)
                 = (if IsPIIValue NewPIIDetector v then VString ?m else v)"
      using assms(3,4) alone by (simp add: redactDataEntries_nth)
    finally show "\<exists>out. redactData p (Some payload) schemaAnnotations = Some out
               \<and> value_at (VMap (Some out)) (ps @ [Entry i])
                   = Some (if IsPIIValue NewPIIDetector v then VString ?m else v)"
      by (simp add: redactData_def)
  qed
  from 1 2 3 4 show ?thesis by blast
qed

theorem heuristic_fallback_witness:
  "value_at (VMap (Some nested_payload)) [Entry 0]
     = Some (VMap (Some [(''email'', VString ''not-an-email'')]))
   \<and> entered producer0 Map.empty (VMap (Some nested_payload)) [Entry 0]
   \<and> (\<exists>out. emitted_payload producer0 (Some nested_payload) Map.empty = Some out
         \<and> replaced_on ''[REDACTED]'' (VMap (Some out)) [Entry 0, Entry 0])
   \<and> (\<exists>out. redactData producer0 (Some nested_payload) Map.empty = Some out
         \<and> value_at (VMap (Some out)) [Entry 0, Entry 0] = Some (VString ''not-an-email''))
   \<and> value_at (VMap (Some nested_payload)) [Entry 1, Elem 0]
       = Some (VMap (Some [(''count'', VString ''user@example.com'')]))
   \<and> entered producer0 Map.empty (VMap (Some nested_payload)) [Entry 1, Elem 0]
   \<and> (\<exists>out. emitted_payload producer0 (Some nested_payload) Map.empty = Some out
         \<and> replaced_on ''[REDACTED]'' (VMap (Some out)) [Entry 1, Elem 0, Entry 0])
   \<and> (\<exists>out. redactData producer0 (Some nested_payload) Map.empty = Some out
         \<and> value_at (VMap (Some out)) [Entry 1, Elem 0, Entry 0] = Some (VString ''[REDACTED]''))
   \<and> (\<exists>out. emitted_payload producer0 (Some flat_payload) Map.empty = Some out
         \<and> length out = 2 \<and> out ! 0 = (''email'', VString ''[REDACTED]''))
   \<and> (\<exists>out. emitted_payload producer0 (Some flat_payload) Map.empty = Some out
         \<and> length out = 2 \<and> out ! 1 = (''count'', VString ''[REDACTED]''))
   \<and> (\<exists>out. redactData producer0 (Some flat_payload) Map.empty = Some out
         \<and> out ! 0 = (''email'', VString ''not-an-email''))
   \<and> \<not> IsPIIValue NewPIIDetector (VString ''not-an-email'')
   \<and> \<not> IsPIIField NewPIIDetector ''count''"
proof -
  let ?user = "[(''email'', VString ''not-an-email'')]"
  let ?order = "[(''count'', VString ''user@example.com'')]"
  have a: "IsPIIField (piiDetector producer0) ''email''
             \<or> IsPIIValue (piiDetector producer0) (VString ''not-an-email'')"
    by (simp add: producer0_fields email_is_pii_field)
  have b: "IsPIIField (piiDetector producer0) ''count''
             \<or> IsPIIValue (piiDetector producer0) (VString ''user@example.com'')"
    by (simp add: producer0_fields email_value_is_pii)
  have none: "Map.empty ''email'' = (None :: FieldAnnotations option)"
             "Map.empty ''count'' = (None :: FieldAnnotations option)"
    by simp_all
  have u: "value_at (VMap (Some nested_payload)) [Entry 0] = Some (VMap (Some ?user))"
          "\<not> slice_in_slice [Entry 0]" "0 < length ?user"
          "?user ! 0 = (''email'', VString ''not-an-email'')"
    by (simp_all add: nested_payload_def)
  have ue: "entered producer0 Map.empty (VMap (Some nested_payload)) [Entry 0]"
    by (simp add: nested_payload_def selected_def producer0_fields user_not_pii_field)
  have o: "value_at (VMap (Some nested_payload)) [Entry 1, Elem 0] = Some (VMap (Some ?order))"
          "\<not> slice_in_slice [Entry 1, Elem 0]" "0 < length ?order"
          "?order ! 0 = (''count'', VString ''user@example.com'')"
    by (simp_all add: nested_payload_def)
  have oe: "entered producer0 Map.empty (VMap (Some nested_payload)) [Entry 1, Elem 0]"
    by (simp add: nested_payload_def selected_def producer0_fields orders_not_pii_field)
  have f: "value_at (VMap (Some flat_payload)) [] = Some (VMap (Some flat_payload))"
          "\<not> slice_in_slice []"
          "0 < length flat_payload" "flat_payload ! 0 = (''email'', VString ''not-an-email'')"
          "1 < length flat_payload" "flat_payload ! 1 = (''count'', VString ''user@example.com'')"
    by (simp_all add: flat_payload_def)
  have len: "length flat_payload = 2"
    by (simp add: flat_payload_def)
  note m = producer0_fields NewRedactor_def not_an_email_not_pii email_value_is_pii
           count_not_pii_field
  from heuristic_fallback [OF u none(1) a] ue
  have 1: "(\<exists>out. emitted_payload producer0 (Some nested_payload) Map.empty = Some out
              \<and> replaced_on ''[REDACTED]'' (VMap (Some out)) [Entry 0, Entry 0])
         \<and> (\<exists>out. redactData producer0 (Some nested_payload) Map.empty = Some out
              \<and> value_at (VMap (Some out)) [Entry 0, Entry 0] = Some (VString ''not-an-email''))"
    by (simp add: m)
  from heuristic_fallback [OF o none(2) b] oe
  have 2: "(\<exists>out. emitted_payload producer0 (Some nested_payload) Map.empty = Some out
              \<and> replaced_on ''[REDACTED]'' (VMap (Some out)) [Entry 1, Elem 0, Entry 0])
         \<and> (\<exists>out. redactData producer0 (Some nested_payload) Map.empty = Some out
              \<and> value_at (VMap (Some out)) [Entry 1, Elem 0, Entry 0] = Some (VString ''[REDACTED]''))"
    by (simp add: m)
  from heuristic_fallback [OF f(1,2,3,4) none(1) a]
  have 3: "(\<exists>out. emitted_payload producer0 (Some flat_payload) Map.empty = Some out
              \<and> length out = 2 \<and> out ! 0 = (''email'', VString ''[REDACTED]''))
         \<and> (\<exists>out. redactData producer0 (Some flat_payload) Map.empty = Some out
              \<and> out ! 0 = (''email'', VString ''not-an-email''))"
    by (auto simp: m len)
  from heuristic_fallback [OF f(1,2,5,6) none(2) b]
  have 4: "\<exists>out. emitted_payload producer0 (Some flat_payload) Map.empty = Some out
              \<and> length out = 2 \<and> out ! 1 = (''count'', VString ''[REDACTED]'')"
    by (auto simp: m len)
  from 1 2 3 4 u(1) ue o(1) oe show ?thesis
    by (simp add: not_an_email_not_pii count_not_pii_field)
qed

section \<open>Idempotence and structure\<close>

lemma Redact_twice:
  "RedactMapValue r d key (RedactMapValue r d key v) = RedactMapValue r d key v"
  "RedactMapEntries r d (RedactMapEntries r d es) = RedactMapEntries r d es"
  "RedactSliceValue r d (RedactSliceValue r d v) = RedactSliceValue r d v"
  "RedactSliceElems r d (RedactSliceElems r d xs) = RedactSliceElems r d xs"
proof (induction r d key v and r d es and r d v and r d xs
    rule: RedactMapValue_RedactMapEntries_RedactSliceValue_RedactSliceElems.induct)
  case (1 r d key v)
  show ?case
  proof (cases "IsPIIField d key \<or> IsPIIValue d v")
    case True
    then show ?thesis by (auto simp: RedactMapValue.simps)
  next
    case False
    with 1 show ?thesis by (cases v) (auto simp: RedactMapValue.simps split: option.splits)
  qed
next
  case (2 r d)
  show ?case by simp
next
  case (3 r d key v es)
  then show ?case by simp
next
  case (4 r d v)
  show ?case
  proof (cases "IsPIIValue d v")
    case True
    then show ?thesis by (auto simp: RedactSliceValue.simps)
  next
    case False
    with 4 show ?thesis by (cases v) (auto simp: RedactSliceValue.simps split: option.splits)
  qed
next
  case (5 r d)
  show ?case by simp
next
  case (6 r d v xs)
  then show ?case by simp
qed

text \<open>
  Claim C5: redaction is idempotent. \<open>RedactMap\<close> applied to its own result gives that
  result again, for every map, every redactor and every detector; and the marker
  \<open>"[REDACTED]"\<close> of a new redactor matches neither the value patterns nor the field-name
  patterns of the default detector.
\<close>

theorem RedactMap_idempotent:
  "RedactMap r (RedactMap r data d) d = RedactMap r data d
   \<and> redactionString NewRedactor = ''[REDACTED]''
   \<and> \<not> IsPIIValue NewPIIDetector (VString ''[REDACTED]'')
   \<and> \<not> IsPIIField NewPIIDetector ''[REDACTED]''"
proof -
  have "RedactMap r (RedactMap r data d) d = RedactMap r data d"
    by (cases data) (simp_all add: RedactMap_def Redact_twice)
  moreover have "redactionString NewRedactor = ''[REDACTED]''"
    by (simp add: NewRedactor_def)
  moreover have "\<not> IsPIIValue NewPIIDetector (VString ''[REDACTED]'')"
    by code_simp
  moreover have "\<not> IsPIIField NewPIIDetector ''[REDACTED]''"
    by code_simp
  ultimately show ?thesis by blast
qed

text \<open>
  Claim C9: redaction preserves structure. \<open>RedactMap\<close> returns a map with the keys of
  its input, in the same places; \<open>RedactSlice\<close> and \<open>RedactParams\<close> return slices of the
  same length; a nil map or slice comes back nil and one that is not nil comes back not
  nil; every entry and element of the result is computed from the entry or element at
  the same position, and is the marker, the input value, or (in \<open>RedactSlice\<close>) the
  redacted copy of the map at that position.
\<close>

theorem redaction_preserves_structure:
  "map_option (map fst) (RedactMap r data d) = map_option (map fst) data
   \<and> map_option length (RedactSlice r sl d) = map_option length sl
   \<and> map_option length (RedactParams r params) = map_option length params
   \<and> RedactMap r None d = None \<and> RedactSlice r None d = None \<and> RedactParams r None = None
   \<and> RedactMap r (Some es) d = Some (map (\<lambda>(key, v). (key, RedactMapValue r d key v)) es)
   \<and> RedactSlice r (Some xs) d = Some (map (RedactSliceValue r d) xs)
   \<and> list_all2 (\<lambda>v v'. v' = VString (redactionString r) \<or> v' = v
        \<or> (\<exists>m. v = VMap m \<and> v' = VMap (RedactMap r m d)))
        xs (the (RedactSlice r (Some xs) d))
   \<and> list_all2 (\<lambda>v v'. v' = VString (redactionString r) \<or> v' = v)
        xs (the (RedactParams r (Some xs)))"
proof -
  have 1: "map_option (map fst) (RedactMap r data d) = map_option (map fst) data"
    by (cases data) (simp_all add: RedactMap_def RedactMapEntries_keys)
  have 2: "map_option length (RedactSlice r sl d) = map_option length sl"
    by (cases sl) (simp_all add: RedactSlice_def RedactSliceElems_map)
  have 3: "map_option length (RedactParams r params) = map_option length params"
    by (cases params) (simp_all add: RedactParams_def)
  have 4: "RedactMap r None d = None \<and> RedactSlice r None d = None \<and> RedactParams r None = None"
    by (simp add: RedactMap_def RedactSlice_def RedactParams_def)
  have 5: "RedactMap r (Some es) d = Some (map (\<lambda>(key, v). (key, RedactMapValue r d key v)) es)"
    by (simp add: RedactMap_def RedactMapEntries_map)
  have 6: "RedactSlice r (Some xs) d = Some (map (RedactSliceValue r d) xs)"
    by (simp add: RedactSlice_def RedactSliceElems_map)
  have 7: "list_all2 (\<lambda>v v'. v' = VString (redactionString r) \<or> v' = v
        \<or> (\<exists>m. v = VMap m \<and> v' = VMap (RedactMap r m d)))
        xs (the (RedactSlice r (Some xs) d))"
    unfolding 6 option.sel list_all2_map2
  proof (rule list_all2_refl)
    fix v
    show "RedactSliceValue r d v = VString (redactionString r) \<or> RedactSliceValue r d v = v
       \<or> (\<exists>m. v = VMap m \<and> RedactSliceValue r d v = VMap (RedactMap r m d))"
      by (cases v) (auto simp: RedactMap_def RedactSliceValue.simps split: option.splits)
  qed
  have 8: "list_all2 (\<lambda>v v'. v' = VString (redactionString r) \<or> v' = v)
        xs (the (RedactParams r (Some xs)))"
    by (simp add: RedactParams_def list_all2_map2 list_all2_refl)
  from 1 2 3 4 5 6 7 8 show ?thesis by blast
qed

section \<open>Status colors\<close>

lemma statusColors_register:
  "statusColors (register r g) status =
     (case g of RegStatus k c \<Rightarrow> if k = status then Some c else statusColors r status
      | _ \<Rightarrow> statusColors r status)"
  by (cases g)
     (simp_all add: RegisterServiceColor_def RegisterAPIColor_def RegisterEventColor_def
        RegisterStatusColor_def)

lemma statusColors_fold:
  "statusColors (fold (\<lambda>g r. register r g) regs r0) status =
     (case last_status_override regs status of Some c \<Rightarrow> Some c | None \<Rightarrow> statusColors r0 status)"
proof (induction regs arbitrary: r0)
  case Nil
  show ?case by simp
next
  case (Cons g regs)
  show ?case
    by (simp add: Cons.IH statusColors_register split: option.splits registration.splits)
qed

lemma last_status_override_nonempty:
  "list_all (\<lambda>g. color_of g \<noteq> []) regs \<Longrightarrow> last_status_override regs status = Some c \<Longrightarrow> c \<noteq> []"
  by (induction regs) (auto split: option.splits registration.splits if_splits)

lemma defaultStatusColors_nonempty: "defaultStatusColors status = Some c \<Longrightarrow> c \<noteq> []"
  by (auto simp: defaultStatusColors_def split: if_splits)

text \<open>
  Claim C7 says that \<open>GetStatusColor\<close> never returns an empty color. As stated this
  fails: a call can register the empty string for a status, and the lookup returns what
  was registered.
\<close>

theorem GetStatusColor_empty_override_counterexample:
  "GetStatusColor (RegisterStatusColor NewColorRegistry ''archived'' []) ''archived'' = []"
  by (simp add: GetStatusColor_def RegisterStatusColor_def)

text \<open>
  Claim C7, amended: on a registry built by registration calls on a new registry,
  \<open>GetStatusColor\<close> returns for every status the color of the last call that registered
  that status if there is one, otherwise the built-in default if the status is one of
  the twelve pre-seeded ones, otherwise gray \<open>#808080\<close>; the result is not empty
  provided no call registered an empty color.
\<close>

theorem GetStatusColor_total:
  "GetStatusColor (registered regs) status =
     (case last_status_override regs status of
        Some c \<Rightarrow> c
      | None \<Rightarrow> (case defaultStatusColors status of Some c \<Rightarrow> c | None \<Rightarrow> ''#808080''))
   \<and> (list_all (\<lambda>g. color_of g \<noteq> []) regs \<longrightarrow> GetStatusColor (registered regs) status \<noteq> [])"
proof -
  have eq: "GetStatusColor (registered regs) status =
     (case last_status_override regs status of
        Some c \<Rightarrow> c
      | None \<Rightarrow> (case defaultStatusColors status of Some c \<Rightarrow> c | None \<Rightarrow> ''#808080''))"
    by (simp add: GetStatusColor_def registered_def statusColors_fold NewColorRegistry_def
          split: option.splits)
  have "GetStatusColor (registered regs) status \<noteq> []" if "list_all (\<lambda>g. color_of g \<noteq> []) regs"
    using that last_status_override_nonempty[OF that] defaultStatusColors_nonempty
    by (auto simp: eq split: option.splits)
  with eq show ?thesis by blast
qed

theorem GetStatusColor_total_witness:
  "GetStatusColor (registered [RegStatus ''success'' ''#112233'']) ''nonexistent-status'' = ''#808080''
   \<and> GetStatusColor (registered [RegStatus ''success'' ''#112233'']) ''success'' = ''#112233''
   \<and> GetStatusColor (registered [RegStatus ''success'' ''#112233'']) ''deleted'' \<noteq> []"
  using GetStatusColor_total [of "[RegStatus ''success'' ''#112233'']" "''nonexistent-status''"]
        GetStatusColor_total [of "[RegStatus ''success'' ''#112233'']" "''success''"]
        GetStatusColor_total [of "[RegStatus ''success'' ''#112233'']" "''deleted''"]
  by (simp add: defaultStatusColors_def)

text \<open>
  Claim C6 says that a status code outside 100-599 has no color. As stated this fails:
  the last case of \<open>getStatusCodeColor\<close> has no upper bound, and 600 gets the color of
  \<open>error\<close>.
\<close>

theorem getStatusCodeColor_600_counterexample:
  "getStatusCodeColor styled0 600 = ''#FF0000'' \<and> getStatusCodeColor styled0 600 \<noteq> []"
  by (simp add: getStatusCodeColor_def styled0_def GetStatusColor_def NewColorRegistry_def
        defaultStatusColors_def)

text \<open>
  Claim C6, amended: with a color registry configured, \<open>getStatusCodeColor\<close> maps every
  code in 200-299 to the color of the status \<open>success\<close>, every code in 300-399 to that of
  \<open>info\<close>, every code in 400-499 to that of \<open>warning\<close>, every code from 500 upwards
  (also above 599) to that of \<open>error\<close>, and every code below 200 to the empty result;
  without a registry every code has the empty result.
\<close>

theorem getStatusCodeColor_ranges:
  "(styledColorRegistry s = None \<longrightarrow> getStatusCodeColor s statusCode = [])
   \<and> (styledColorRegistry s = Some registry \<longrightarrow>
        (200 \<le> sint statusCode \<and> sint statusCode \<le> 299 \<longrightarrow>
           getStatusCodeColor s statusCode = GetStatusColor registry ''success'')
      \<and> (300 \<le> sint statusCode \<and> sint statusCode \<le> 399 \<longrightarrow>
           getStatusCodeColor s statusCode = GetStatusColor registry ''info'')
      \<and> (400 \<le> sint statusCode \<and> sint statusCode \<le> 499 \<longrightarrow>
           getStatusCodeColor s statusCode = GetStatusColor registry ''warning'')
      \<and> (500 \<le> sint statusCode \<longrightarrow>
           getStatusCodeColor s statusCode = GetStatusColor registry ''error'')
      \<and> (sint statusCode < 200 \<longrightarrow> getStatusCodeColor s statusCode = []))"
  by (simp add: getStatusCodeColor_def)

theorem getStatusCodeColor_ranges_witness:
  "getStatusCodeColor styled0 201 = ''#00FF00''
   \<and> getStatusCodeColor styled0 302 = ''#00BFFF''
   \<and> getStatusCodeColor styled0 404 = ''#FFA500''
   \<and> getStatusCodeColor styled0 503 = ''#FF0000''
   \<and> getStatusCodeColor styled0 100 = []
   \<and> getStatusCodeColor (styled0\<lparr> styledColorRegistry := None \<rparr>) 200 = []"
  using getStatusCodeColor_ranges [of styled0 201 NewColorRegistry]
        getStatusCodeColor_ranges [of styled0 302 NewColorRegistry]
        getStatusCodeColor_ranges [of styled0 404 NewColorRegistry]
        getStatusCodeColor_ranges [of styled0 503 NewColorRegistry]
        getStatusCodeColor_ranges [of styled0 100 NewColorRegistry]
        getStatusCodeColor_ranges [of "styled0\<lparr> styledColorRegistry := None \<rparr>" 200 NewColorRegistry]
  by (simp add: styled0_def GetStatusColor_def NewColorRegistry_def defaultStatusColors_def)

section \<open>Emission order\<close>

lemma Base_RedactPII [simp]: "Base (RedactPII e d r) = Base e"
  by (cases e) simp_all

lemma Base_redacted_event [simp]: "Base (redacted_event p e) = Base e"
  by (simp add: redacted_event_def)

lemma serialized_append [simp]: "serialized (xs @ ys) = serialized xs @ serialized ys"
  by (induction xs rule: serialized.induct) simp_all

lemma printed_append [simp]: "printed (xs @ ys) = printed xs @ printed ys"
  by (induction xs rule: printed.induct) simp_all

lemma marshal_and_print_serialized:
  "list_all (\<lambda>x. x = e) (serialized (snd (marshal_and_print lib w errW e)))"
  by (simp add: marshal_and_print_def split: option.splits)

lemma marshal_and_print_printed:
  "list_all (\<lambda>t. map_option (\<lambda>j. encode lib j @ newline) (MarshalEvent lib e) = Some t)
     (printed (snd (marshal_and_print lib w errW e)))"
  by (simp add: marshal_and_print_def split: option.splits)

lemma WriteEvent_trace:
  "snd (WriteEvent s lib e) =
     (case jsonOutput s of
        None \<Rightarrow> []
      | Some w \<Rightarrow> snd (marshal_and_print lib w FailedToWriteJSONEvent e)) @
     (if fst (WriteEvent s lib e) = None \<and> \<not> jsonOnly s then [StyledLog e] else [])"
  by (simp add: WriteEvent_def Let_def split: option.splits prod.splits)

lemma WriteEvent_serialized:
  "list_all (\<lambda>x. x = e) (serialized (snd (WriteEvent s lib e)))"
  unfolding WriteEvent_trace
  by (simp add: marshal_and_print_serialized split: option.splits)

lemma WriteEvent_printed:
  "list_all (\<lambda>t. map_option (\<lambda>j. encode lib j @ newline) (MarshalEvent lib e) = Some t)
     (printed (snd (WriteEvent s lib e)))"
  unfolding WriteEvent_trace
  using marshal_and_print_printed [of lib e _ FailedToWriteJSONEvent]
  by (simp split: option.splits)

lemma emitEvent_trace:
  "snd (emitEvent p lib ctx e duration) =
     (if IsEventWithData e then [CallRedactPII e] else []) @
     (if otel p \<noteq> None
      then [StartSpan (GetEventType (redacted_event p e)), RecordMetric (GetEventType (redacted_event p e)) duration]
      else []) @
     (case styled p of
        Some s \<Rightarrow> snd (WriteEvent s lib (redacted_event p e))
      | None \<Rightarrow> snd (marshal_and_print lib (output_writer p) FailedToWriteEvent (redacted_event p e))) @
     (if otel p \<noteq> None then [SpanEnd] else [])"
  by (simp add: emitEvent_def redacted_event_def Let_def split: option.splits prod.splits)

lemma emitEvent_serialized:
  "list_all (\<lambda>x. x = redacted_event p e) (serialized (snd (emitEvent p lib ctx e duration)))"
  using WriteEvent_serialized [of "redacted_event p e" _ lib]
        marshal_and_print_serialized [of "redacted_event p e" lib "output_writer p" FailedToWriteEvent]
  by (simp add: emitEvent_trace split: option.splits)

lemma emitEvent_printed:
  "list_all (\<lambda>t. map_option (\<lambda>j. encode lib j @ newline) (MarshalEvent lib (redacted_event p e)) = Some t)
     (printed (snd (emitEvent p lib ctx e duration)))"
  using WriteEvent_printed [of lib "redacted_event p e"]
        marshal_and_print_printed [of lib "redacted_event p e" "output_writer p" FailedToWriteEvent]
  by (simp add: emitEvent_trace split: option.splits)

lemma list_all_weaken: "list_all P xs \<Longrightarrow> (\<And>x. P x \<Longrightarrow> Q x) \<Longrightarrow> list_all Q xs"
  by (induction xs) auto

lemma emitEvent_correlation:
  "list_all (\<lambda>x. GetCorrelationID x = GetCorrelationID e) (serialized (snd (emitEvent p lib ctx e duration)))"
  by (rule list_all_weaken [OF emitEvent_serialized]) (simp add: GetCorrelationID_def)

text \<open>
  Claim C3: on every path of an emission, in plain JSON mode and in styled or dual
  mode, the redaction of the payload is complete before the event is serialized or
  written. Every event that \<open>emitEvent\<close> hands to \<open>json.Marshal\<close> or to the styled
  renderer is the redacted event, every text it prints is the encoding of the redacted
  event followed by a newline, and for an event with data the call of \<open>RedactPII\<close> is the
  first thing that happens. For the resource emitters the payload serialized is the
  one that \<open>redactData\<close> and \<open>RedactPII\<close> produced, for \<open>EmitQueryStarted\<close> the
  parameters serialized are those that \<open>RedactParams\<close> returned.
\<close>

theorem redaction_precedes_serialization:
  "list_all (\<lambda>x. x = redacted_event p e) (serialized (snd (emitEvent p lib ctx e duration)))
   \<and> list_all (\<lambda>t. map_option (\<lambda>j. encode lib j @ newline) (MarshalEvent lib (redacted_event p e)) = Some t)
       (printed (snd (emitEvent p lib ctx e duration)))
   \<and> (IsEventWithData e \<longrightarrow>
        (\<exists>rest. snd (emitEvent p lib ctx e duration) = CallRedactPII e # rest))
   \<and> list_all (\<lambda>x. x = ResourceCreatedEvent
          (createBaseEvent p now ''resource.created'' correlationID None [inferAPI resource apis])
          actor resource (emitted_payload p resourceData schemaAnnotations))
       (serialized (snd (EmitResourceCreated p lib now ctx correlationID actor resource resourceData
          schemaAnnotations apis)))
   \<and> list_all (\<lambda>x. x = ResourceUpdatedEvent
          (createBaseEvent p now ''resource.updated'' correlationID None [inferAPI resource apis])
          actor resource (emitted_payload p previousData schemaAnnotations)
          (emitted_payload p newData schemaAnnotations) updatedFields)
       (serialized (snd (EmitResourceUpdated p lib now ctx correlationID actor resource previousData
          newData updatedFields schemaAnnotations apis)))
   \<and> list_all (\<lambda>x. x = ResourceDeletedEvent
          (createBaseEvent p now ''resource.deleted'' correlationID None [inferAPI resource apis])
          actor resource softDelete (emitted_payload p finalData schemaAnnotations))
       (serialized (snd (EmitResourceDeleted p lib now ctx correlationID actor resource softDelete
          finalData schemaAnnotations apis)))
   \<and> list_all (\<lambda>x. x = QueryStartedEvent
          (createBaseEvent p now ''db.query.started'' (extractCorrelationID ctx) None [])
          queryID query (RedactParams (redactor p) params))
       (serialized (snd (EmitQueryStarted p lib now ctx queryID query params)))"
proof -
  have 3: "IsEventWithData e \<longrightarrow> (\<exists>rest. snd (emitEvent p lib ctx e duration) = CallRedactPII e # rest)"
    by (simp add: emitEvent_trace)
  have 4: "list_all (\<lambda>x. x = ResourceCreatedEvent
          (createBaseEvent p now ''resource.created'' correlationID None [inferAPI resource apis])
          actor resource (emitted_payload p resourceData schemaAnnotations))
       (serialized (snd (EmitResourceCreated p lib now ctx correlationID actor resource resourceData
          schemaAnnotations apis)))"
    unfolding EmitResourceCreated_def
    by (rule list_all_weaken [OF emitEvent_serialized])
       (simp add: redacted_event_def ResourceCreated_event_def emitted_payload_def Let_def)
  have 5: "list_all (\<lambda>x. x = ResourceUpdatedEvent
          (createBaseEvent p now ''resource.updated'' correlationID None [inferAPI resource apis])
          actor resource (emitted_payload p previousData schemaAnnotations)
          (emitted_payload p newData schemaAnnotations) updatedFields)
       (serialized (snd (EmitResourceUpdated p lib now ctx correlationID actor resource previousData
          newData updatedFields schemaAnnotations apis)))"
    unfolding EmitResourceUpdated_def
    by (rule list_all_weaken [OF emitEvent_serialized])
       (simp add: redacted_event_def ResourceUpdated_event_def emitted_payload_def Let_def)
  have 6: "list_all (\<lambda>x. x = ResourceDeletedEvent
          (createBaseEvent p now ''resource.deleted'' correlationID None [inferAPI resource apis])
          actor resource softDelete (emitted_payload p finalData schemaAnnotations))
       (serialized (snd (EmitResourceDeleted p lib now ctx correlationID actor resource softDelete
          finalData schemaAnnotations apis)))"
    unfolding EmitResourceDeleted_def
    by (rule list_all_weaken [OF emitEvent_serialized])
       (simp add: redacted_event_def ResourceDeleted_event_def emitted_payload_def Let_def)
  have 7: "list_all (\<lambda>x. x = QueryStartedEvent
          (createBaseEvent p now ''db.query.started'' (extractCorrelationID ctx) None [])
          queryID query (RedactParams (redactor p) params))
       (serialized (snd (EmitQueryStarted p lib now ctx queryID query params)))"
    unfolding EmitQueryStarted_def
    by (rule list_all_weaken [OF emitEvent_serialized])
       (simp add: redacted_event_def QueryStarted_event_def Let_def)
  from emitEvent_serialized [of p e lib ctx duration] emitEvent_printed [of lib p e ctx duration] 3 4 5 6 7
  show ?thesis by blast
qed

theorem redaction_precedes_serialization_witness:
  "IsEventWithData created_event0
   \<and> (\<exists>rest. snd (emitEvent producer0 lib0 Map.empty created_event0 0) = CallRedactPII created_event0 # rest)
   \<and> list_all (\<lambda>x. x = redacted_event producer0 created_event0)
       (serialized (snd (emitEvent producer0 lib0 Map.empty created_event0 0)))
   \<and> serialized (snd (emitEvent producer0 lib0 Map.empty created_event0 0)) \<noteq> []
   \<and> list_all (\<lambda>x. x = redacted_event producer_styled created_event0)
       (serialized (snd (emitEvent producer_styled lib0 Map.empty created_event0 0)))"
proof -
  have d: "IsEventWithData created_event0"
    by (simp add: created_event0_def ResourceCreated_event_def Let_def)
  have n: "serialized (snd (emitEvent producer0 lib0 Map.empty created_event0 0)) \<noteq> []"
    by (simp add: emitEvent_trace producer0_fields marshal_and_print_def split: option.splits)
  note t = redaction_precedes_serialization [of producer0 created_event0 lib0 Map.empty 0]
  note u = redaction_precedes_serialization [of producer_styled created_event0 lib0 Map.empty 0]
  from d t [THEN conjunct2, THEN conjunct2, THEN conjunct1]
  have r: "\<exists>rest. snd (emitEvent producer0 lib0 Map.empty created_event0 0) = CallRedactPII created_event0 # rest"
    by simp
  from d r n t [THEN conjunct1] u [THEN conjunct1] show ?thesis by simp
qed

lemma emitEvent_correlation_eq:
  "GetCorrelationID e = c \<Longrightarrow>
   list_all (\<lambda>x. GetCorrelationID x = c) (serialized (snd (emitEvent p lib ctx e duration)))"
  using emitEvent_correlation [of e p lib ctx duration] by simp

text \<open>
  Claim C10: for every \<open>db.query.*\<close> and \<open>db.transaction.*\<close> emission, the correlation
  id of the event built, and of every event serialized, is the string stored in the
  context under the key \<open>correlation_id\<close>, and the empty string when that value is absent
  or is not a string. (These six emitters take no correlation id argument.)
\<close>

theorem db_events_correlation_id_from_context:
  "GetCorrelationID (QueryStarted_event p now ctx queryID query params) = extractCorrelationID ctx
   \<and> GetCorrelationID (QueryCompleted_event p now ctx queryID durationMs rowsAffected) = extractCorrelationID ctx
   \<and> GetCorrelationID (QueryErrored_event p now ctx queryID errorMessage errorCode durationMs) = extractCorrelationID ctx
   \<and> GetCorrelationID (TransactionStarted_event p now ctx transactionID) = extractCorrelationID ctx
   \<and> GetCorrelationID (TransactionCommitted_event p now ctx transactionID durationMs) = extractCorrelationID ctx
   \<and> GetCorrelationID (TransactionRolledBack_event p now ctx transactionID reason durationMs) = extractCorrelationID ctx
   \<and> list_all (\<lambda>x. GetCorrelationID x = extractCorrelationID ctx)
       (serialized (snd (EmitQueryStarted p lib now ctx queryID query params)))
   \<and> list_all (\<lambda>x. GetCorrelationID x = extractCorrelationID ctx)
       (serialized (snd (EmitQueryCompleted p lib now ctx queryID durationMs rowsAffected)))
   \<and> list_all (\<lambda>x. GetCorrelationID x = extractCorrelationID ctx)
       (serialized (snd (EmitQueryErrored p lib now ctx queryID errorMessage errorCode durationMs)))
   \<and> list_all (\<lambda>x. GetCorrelationID x = extractCorrelationID ctx)
       (serialized (snd (EmitTransactionStarted p lib now ctx transactionID)))
   \<and> list_all (\<lambda>x. GetCorrelationID x = extractCorrelationID ctx)
       (serialized (snd (EmitTransactionCommitted p lib now ctx transactionID durationMs)))
   \<and> list_all (\<lambda>x. GetCorrelationID x = extractCorrelationID ctx)
       (serialized (snd (EmitTransactionRolledBack p lib now ctx transactionID reason durationMs)))
   \<and> (ctx ''correlation_id'' = Some (VString s) \<longrightarrow> extractCorrelationID ctx = s)
   \<and> (ctx ''correlation_id'' = None \<longrightarrow> extractCorrelationID ctx = [])
   \<and> ((\<forall>s'. ctx ''correlation_id'' \<noteq> Some (VString s')) \<longrightarrow> extractCorrelationID ctx = [])"
proof -
  have ev:
    "GetCorrelationID (QueryStarted_event p now ctx queryID query params) = extractCorrelationID ctx"
    "GetCorrelationID (QueryCompleted_event p now ctx queryID durationMs rowsAffected) = extractCorrelationID ctx"
    "GetCorrelationID (QueryErrored_event p now ctx queryID errorMessage errorCode durationMs) = extractCorrelationID ctx"
    "GetCorrelationID (TransactionStarted_event p now ctx transactionID) = extractCorrelationID ctx"
    "GetCorrelationID (TransactionCommitted_event p now ctx transactionID durationMs) = extractCorrelationID ctx"
    "GetCorrelationID (TransactionRolledBack_event p now ctx transactionID reason durationMs) = extractCorrelationID ctx"
    by (simp_all add: GetCorrelationID_def QueryStarted_event_def QueryCompleted_event_def
          QueryErrored_event_def TransactionStarted_event_def TransactionCommitted_event_def
          TransactionRolledBack_event_def createBaseEvent_def Let_def)
  have em:
    "list_all (\<lambda>x. GetCorrelationID x = extractCorrelationID ctx)
       (serialized (snd (EmitQueryStarted p lib now ctx queryID query params)))"
    "list_all (\<lambda>x. GetCorrelationID x = extractCorrelationID ctx)
       (serialized (snd (EmitQueryCompleted p lib now ctx queryID durationMs rowsAffected)))"
    "list_all (\<lambda>x. GetCorrelationID x = extractCorrelationID ctx)
       (serialized (snd (EmitQueryErrored p lib now ctx queryID errorMessage errorCode durationMs)))"
    "list_all (\<lambda>x. GetCorrelationID x = extractCorrelationID ctx)
       (serialized (snd (EmitTransactionStarted p lib now ctx transactionID)))"
    "list_all (\<lambda>x. GetCorrelationID x = extractCorrelationID ctx)
       (serialized (snd (EmitTransactionCommitted p lib now ctx transactionID durationMs)))"
    "list_all (\<lambda>x. GetCorrelationID x = extractCorrelationID ctx)
       (serialized (snd (EmitTransactionRolledBack p lib now ctx transactionID reason durationMs)))"
    unfolding EmitQueryStarted_def EmitQueryCompleted_def EmitQueryErrored_def
      EmitTransactionStarted_def EmitTransactionCommitted_def EmitTransactionRolledBack_def
    by (rule emitEvent_correlation_eq, rule ev)+
  have cx:
    "ctx ''correlation_id'' = Some (VString s) \<longrightarrow> extractCorrelationID ctx = s"
    "ctx ''correlation_id'' = None \<longrightarrow> extractCorrelationID ctx = []"
    "(\<forall>s'. ctx ''correlation_id'' \<noteq> Some (VString s')) \<longrightarrow> extractCorrelationID ctx = []"
    by (auto simp: extractCorrelationID_def split: option.splits val.splits)
  from ev em cx show ?thesis by blast
qed

theorem db_events_correlation_id_from_context_witness:
  "GetCorrelationID (QueryStarted_event producer0 0 ctx_with_id ''query-456'' ''SELECT 1'' None) = ''corr-123''
   \<and> GetCorrelationID (TransactionStarted_event producer0 0 ctx_with_number ''tx-1'') = []
   \<and> GetCorrelationID (TransactionStarted_event producer0 0 Map.empty ''tx-1'') = []"
  using db_events_correlation_id_from_context [of producer0 0 ctx_with_id "''query-456''" "''SELECT 1''" None _ _ _ _ _ _ _ "''corr-123''"]
        db_events_correlation_id_from_context [of producer0 0 ctx_with_number _ _ _ _ _ _ _ "''tx-1''"]
        db_events_correlation_id_from_context [of producer0 0 Map.empty _ _ _ _ _ _ _ "''tx-1''"]
  by (simp add: ctx_with_id_def ctx_with_number_def)

section \<open>API resolution\<close>

text \<open>
  Claim C4 puts the default API of the producer before the resource type. As stated
  this fails: a producer whose default API is \<open>examples.User\<close> emits \<open>resource.created\<close>
  for a resource of type \<open>Order\<close>, with no API argument, with the API \<open>Order\<close>.
\<close>

theorem api_resolution_counterexample:
  "GetAPI (ResourceCreated_event producer_user_api 0 ''req-123'' None (Some order_resource) None Map.empty [])
     = ''Order''
   \<and> api producer_user_api = ''examples.User''
   \<and> GetAPI (ResourceCreated_event producer_user_api 0 ''req-123'' None (Some order_resource) None Map.empty [])
     \<noteq> api producer_user_api"
  by (simp add: GetAPI_def ResourceCreated_event_def createBaseEvent_def inferAPI_def Let_def
        producer_user_api_def NewProducer_def WithAPI_def order_resource_def)

text \<open>
  Claim C4, amended: for the resource emitters and \<open>EmitRequestHandled\<close> the API of the
  event is the explicit per-call argument if it is not empty, otherwise the type of the
  resource if there is a resource and its type is not empty, otherwise the default API
  of the producer (which is empty unless set). For \<open>EmitRequestErrored\<close>, which has no
  resource, it is the explicit argument if not empty, otherwise the default of the
  producer.
\<close>

theorem api_resolution:
  "GetAPI (ResourceCreated_event p now correlationID actor resource resourceData schemaAnnotations apis)
     = (if length apis > 0 \<and> hd apis \<noteq> [] then hd apis
        else case resource of Some r \<Rightarrow> if Type r \<noteq> [] then Type r else api p | None \<Rightarrow> api p)
   \<and> GetAPI (ResourceUpdated_event p now correlationID actor resource previousData newData updatedFields
        schemaAnnotations apis)
     = (if length apis > 0 \<and> hd apis \<noteq> [] then hd apis
        else case resource of Some r \<Rightarrow> if Type r \<noteq> [] then Type r else api p | None \<Rightarrow> api p)
   \<and> GetAPI (ResourceDeleted_event p now correlationID actor resource softDelete finalData
        schemaAnnotations apis)
     = (if length apis > 0 \<and> hd apis \<noteq> [] then hd apis
        else case resource of Some r \<Rightarrow> if Type r \<noteq> [] then Type r else api p | None \<Rightarrow> api p)
   \<and> GetAPI (RequestHandled_event p now correlationID actor resource statusCode durationMs
        responseSizeBytes apis)
     = (if length apis > 0 \<and> hd apis \<noteq> [] then hd apis
        else case resource of Some r \<Rightarrow> if Type r \<noteq> [] then Type r else api p | None \<Rightarrow> api p)
   \<and> GetAPI (RequestErrored_event p now correlationID errorMessage errorCode statusCode durationMs apis)
     = (if length apis > 0 \<and> hd apis \<noteq> [] then hd apis else api p)"
  by (simp add: GetAPI_def ResourceCreated_event_def ResourceUpdated_event_def
        ResourceDeleted_event_def RequestHandled_event_def RequestErrored_event_def
        createBaseEvent_def inferAPI_def Let_def split: option.splits)

section \<open>The serialized record\<close>

text \<open>
  Every event struct carries its envelope in the field \<open>Base\<close>, tagged \<open>base\<close>, so the
  object of an event has the envelope as the value of its first field, and an emission
  prints at most one line.
\<close>

lemma MarshalEvent_base:
  "MarshalEvent lib e = Some j \<Longrightarrow>
   \<exists>jb own. j = JObject ((''base'', jb) # own) \<and> MarshalBase lib (Base e) = Some jb"
  by (cases e) (auto simp: obj_def split: option.splits)

lemma MarshalBase_names:
  "MarshalBase lib b = Some jb \<Longrightarrow>
   \<exists>rest. top_level_names jb = ''event_type'' # ''timestamp'' # ''service'' # rest"
  by (auto simp: MarshalBase_def top_level_names_def str_field_def)

lemma emitEvent_printed_once: "length (printed (snd (emitEvent p lib ctx e duration))) \<le> 1"
  by (simp add: emitEvent_trace WriteEvent_trace marshal_and_print_def split: option.splits)

text \<open>
  Claim C8 says that the top-level field names of the serialized record are
  \<open>event_type\<close>, \<open>timestamp\<close>, \<open>service\<close>, \<open>api\<close>, \<open>host\<close>, \<open>correlation_id\<close> and \<open>metadata\<close>
  plus those of the variant. The code prints one object and one line for each event,
  but the envelope is nested: for \<open>EmitServiceStarted\<close> with version \<open>v1.0.0\<close> and pid
  12345 the top-level names are \<open>base\<close>, \<open>version\<close> and \<open>pid\<close>, and \<open>event_type\<close>,
  \<open>timestamp\<close>, \<open>service\<close> and \<open>host\<close> are fields of the object under \<open>base\<close>.
\<close>

theorem service_started_record:
  "MarshalEvent lib (ServiceStarted_event producer0 now ''v1.0.0'' 12345) =
     Some (JObject [
       (''base'', JObject [
          (''event_type'', JString ''service.started''),
          (''timestamp'', JString (timeText lib now)),
          (''service'', JString ''user-service''),
          (''host'', JString ''pod-123'')]),
       (''version'', JString ''v1.0.0''),
       (''pid'', JNumber 12345)])
   \<and> top_level_names (the (MarshalEvent lib (ServiceStarted_event producer0 now ''v1.0.0'' 12345)))
       = [''base'', ''version'', ''pid'']
   \<and> printed (snd (EmitServiceStarted producer0 lib now ctx ''v1.0.0'' 12345)) =
       [encode lib (the (MarshalEvent lib (ServiceStarted_event producer0 now ''v1.0.0'' 12345))) @ newline]"
proof -
  have m: "MarshalEvent lib (ServiceStarted_event producer0 now ''v1.0.0'' 12345) =
     Some (JObject [
       (''base'', JObject [
          (''event_type'', JString ''service.started''),
          (''timestamp'', JString (timeText lib now)),
          (''service'', JString ''user-service''),
          (''host'', JString ''pod-123'')]),
       (''version'', JString ''v1.0.0''),
       (''pid'', JNumber 12345)])"
    by (simp add: ServiceStarted_event_def createBaseEvent_def producer0_fields obj_def
          MarshalBase_def map_omitempty_def str_field_def str_omitempty_def int32_field_def)
  have e: "redacted_event producer0 (ServiceStarted_event producer0 now ''v1.0.0'' 12345)
             = ServiceStarted_event producer0 now ''v1.0.0'' 12345"
    by (simp add: redacted_event_def ServiceStarted_event_def)
  have p: "printed (snd (EmitServiceStarted producer0 lib now ctx ''v1.0.0'' 12345)) =
       [encode lib (the (MarshalEvent lib (ServiceStarted_event producer0 now ''v1.0.0'' 12345))) @ newline]"
    by (simp add: EmitServiceStarted_def emitEvent_trace e producer0_fields marshal_and_print_def m
          stdout_def)
  show ?thesis using m p by (simp add: top_level_names_def)
qed

end
